theory Spec2Isabelle
  imports Main "HOL-Library.AList"
begin

section \<open>Python values\<close>

text \<open>
  The code is Python. A value that crosses one of its interfaces (a parsed JSON response, a
  field of a chat message, the result of \<^verbatim>\<open>os.getenv\<close> with a non-string default) is
  dynamically typed, so it is modelled by one datatype with a constructor per Python type
  the code can meet. A \<^verbatim>\<open>dict\<close> is an association list in insertion order whose keys
  are distinct; a finite \<^verbatim>\<open>float\<close> is kept as mantissa and binary exponent.

  A \<^verbatim>\<open>str\<close> is a \<^typ>\<open>string\<close>; its characters are the code points U+0000 to
  U+00FF, text beyond that range is outside the model.

  A value of \<open>exn\<close> stands for a raised instance of Python's \<^verbatim>\<open>Exception\<close>, which
  is what the handlers of this code (\<^verbatim>\<open>except Exception\<close>) catch. \<open>Raised\<close> is an
  exception of a collaborator (HTTP library, credential, embedding client); the others are
  raised by the interpreter.
\<close>

datatype exn = KeyError string | TypeError | AttributeError | ValueError | Raised string

datatype pyval =
    PNone
  | PBool bool
  | PInt int
  | PFloat int int
  | PStr string
  | PList "pyval list"
  | PDict "(string \<times> pyval) list"

text \<open>Truth value of an object in a condition (\<^verbatim>\<open>if x:\<close>).\<close>

fun truthy :: "pyval \<Rightarrow> bool" where
  "truthy PNone = False"
| "truthy (PBool b) = b"
| "truthy (PInt n) = (n \<noteq> 0)"
| "truthy (PFloat m e) = (m \<noteq> 0)"
| "truthy (PStr s) = (s \<noteq> [])"
| "truthy (PList xs) = (xs \<noteq> [])"
| "truthy (PDict kvs) = (kvs \<noteq> [])"

text \<open>\<^verbatim>\<open>x[key]\<close> with a string key: only a dict accepts it, and raises KeyError when the
  key is missing.\<close>

fun py_getitem :: "pyval \<Rightarrow> string \<Rightarrow> exn + pyval" where
  "py_getitem (PDict kvs) k = (case map_of kvs k of None \<Rightarrow> Inl (KeyError k) | Some v \<Rightarrow> Inr v)"
| "py_getitem _ k = Inl TypeError"

text \<open>\<^verbatim>\<open>len(x)\<close>.\<close>

fun py_len :: "pyval \<Rightarrow> exn + nat" where
  "py_len (PStr s) = Inr (length s)"
| "py_len (PList xs) = Inr (length xs)"
| "py_len (PDict kvs) = Inr (length kvs)"
| "py_len _ = Inl TypeError"

text \<open>The elements a \<^verbatim>\<open>for\<close> loop visits: the items of a list, the characters of a
  string, the keys of a dict; anything else is not iterable.\<close>

fun py_iter :: "pyval \<Rightarrow> exn + pyval list" where
  "py_iter (PList xs) = Inr xs"
| "py_iter (PStr s) = Inr (map (\<lambda>c. PStr [c]) s)"
| "py_iter (PDict kvs) = Inr (map (\<lambda>kv. PStr (fst kv)) kvs)"
| "py_iter _ = Inl TypeError"

text \<open>\<^verbatim>\<open>x + s\<close> where \<open>s\<close> is a string: defined only when \<open>x\<close> is a string too.\<close>

fun py_add_str :: "pyval \<Rightarrow> string \<Rightarrow> exn + string" where
  "py_add_str (PStr t) s = Inr (t @ s)"
| "py_add_str _ s = Inl TypeError"

section \<open>Strings\<close>

text \<open>The characters \<^verbatim>\<open>str.isspace\<close> accepts, within U+0000 to U+00FF: tab to carriage
  return, the four separators U+001C to U+001F, space, next line (U+0085) and no-break
  space (U+00A0).\<close>

definition is_space :: "char \<Rightarrow> bool" where
  "is_space c =
     (let n = (of_char c :: nat)
      in (9 \<le> n \<and> n \<le> 13) \<or> (28 \<le> n \<and> n \<le> 32) \<or> n = 133 \<or> n = 160)"

text \<open>\<^verbatim>\<open>s.strip()\<close>: whitespace removed at both ends.\<close>

definition py_strip :: "string \<Rightarrow> string" where
  "py_strip s = rev (dropWhile is_space (rev (dropWhile is_space s)))"

text \<open>\<^verbatim>\<open>x.strip()\<close> on an arbitrary object: only a string has the method.\<close>

fun py_strip_method :: "pyval \<Rightarrow> exn + string" where
  "py_strip_method (PStr s) = Inr (py_strip s)"
| "py_strip_method _ = Inl AttributeError"

text \<open>\<^verbatim>\<open>sep.join(xs)\<close> for a list of strings.\<close>

fun py_join :: "string \<Rightarrow> string list \<Rightarrow> string" where
  "py_join sep [] = []"
| "py_join sep [x] = x"
| "py_join sep (x # y # ys) = x @ sep @ py_join sep (y # ys)"

text \<open>\<^verbatim>\<open>needle in hay\<close> for two strings: \<open>needle\<close> occurs at some position of \<open>hay\<close>.\<close>

fun starts_with :: "string \<Rightarrow> string \<Rightarrow> bool" where
  "starts_with s [] = True"
| "starts_with [] (p # ps) = False"
| "starts_with (c # cs) (p # ps) = (c = p \<and> starts_with cs ps)"

fun str_contains :: "string \<Rightarrow> string \<Rightarrow> bool" where
  "str_contains [] needle = (needle = [])"
| "str_contains (c # cs) needle = (starts_with (c # cs) needle \<or> str_contains cs needle)"

text \<open>\<^verbatim>\<open>needle in x\<close> for a string \<open>needle\<close> and an arbitrary object: substring test on a
  string, membership (by equality) in a list, key membership in a dict; other objects are
  not containers.\<close>

fun py_in :: "string \<Rightarrow> pyval \<Rightarrow> exn + bool" where
  "py_in needle (PStr s) = Inr (str_contains s needle)"
| "py_in needle (PList xs) = Inr (PStr needle \<in> set xs)"
| "py_in needle (PDict kvs) = Inr (needle \<in> set (map fst kvs))"
| "py_in needle _ = Inl TypeError"

text \<open>
  \<^verbatim>\<open>int(s)\<close> for a string: whitespace is removed at both ends, then come an optional
  sign and decimal digits, where single underscores may separate digits. Anything else
  raises ValueError. The whitespace \<^verbatim>\<open>int\<close> accepts is not that of \<^verbatim>\<open>str.strip\<close>: within
  U+0000 to U+00FF it is tab to carriage return, space, next line (U+0085) and no-break
  space (U+00A0), without the separators U+001C to U+001F. A string with more digits than
  \<^verbatim>\<open>sys.int_max_str_digits\<close> (4300 unless reconfigured) raises ValueError as well; leading
  zeros count, underscores and the sign do not.
\<close>

definition is_int_space :: "char \<Rightarrow> bool" where
  "is_int_space c =
     (let n = (of_char c :: nat)
      in (9 \<le> n \<and> n \<le> 13) \<or> n = 32 \<or> n = 133 \<or> n = 160)"

definition int_strip :: "string \<Rightarrow> string" where
  "int_strip s = rev (dropWhile is_int_space (rev (dropWhile is_int_space s)))"

definition int_max_str_digits :: nat where
  "int_max_str_digits = 4300"

definition is_digit :: "char \<Rightarrow> bool" where
  "is_digit c = (let n = (of_char c :: nat) in 48 \<le> n \<and> n \<le> 57)"

definition digit_value :: "char \<Rightarrow> int" where
  "digit_value c = int (of_char c) - 48"

fun digits_from :: "int \<Rightarrow> string \<Rightarrow> int option" where
  "digits_from acc [] = Some acc"
| "digits_from acc [c] = (if is_digit c then Some (10 * acc + digit_value c) else None)"
| "digits_from acc (c # d # ds) =
     (if is_digit c then digits_from (10 * acc + digit_value c) (d # ds)
      else if c = CHR ''_'' \<and> is_digit d then digits_from (10 * acc + digit_value d) ds
      else None)"

definition unsigned_of_str :: "string \<Rightarrow> int option" where
  "unsigned_of_str s =
     (case s of
        [] \<Rightarrow> None
      | c # cs \<Rightarrow> if is_digit c then digits_from (digit_value c) cs else None)"

definition int_of_str :: "string \<Rightarrow> exn + int" where
  "int_of_str s =
     (let t = int_strip s;
          r = (case t of
                 [] \<Rightarrow> None
               | c # cs \<Rightarrow>
                   if c = CHR ''-'' then map_option uminus (unsigned_of_str cs)
                   else if c = CHR ''+'' then unsigned_of_str cs
                   else unsigned_of_str t)
      in if length (filter is_digit t) > int_max_str_digits then Inl ValueError
         else case r of None \<Rightarrow> Inl ValueError | Some n \<Rightarrow> Inr n)"

text \<open>\<^verbatim>\<open>int(x)\<close>: an int is itself, a bool is 0 or 1, a float is truncated towards zero,
  a string is parsed; other objects raise TypeError.\<close>

fun py_int :: "pyval \<Rightarrow> exn + int" where
  "py_int (PInt n) = Inr n"
| "py_int (PBool b) = Inr (if b then 1 else 0)"
| "py_int (PFloat m e) =
     Inr (if 0 \<le> e then m * 2 ^ nat e else sgn m * (\<bar>m\<bar> div 2 ^ nat (- e)))"
| "py_int (PStr s) = int_of_str s"
| "py_int _ = Inl TypeError"

text \<open>
  The slice \<^verbatim>\<open>x[0:k]\<close>. On a sequence of length \<open>n\<close> a negative bound counts from the
  end: the slice stops at \<open>n + k\<close>, or is empty when that is negative. Lists and strings
  can be sliced; for a dict (and every other object) the subscription raises.
\<close>

definition slice_to :: "'a list \<Rightarrow> int \<Rightarrow> 'a list" where
  "slice_to xs k = (if 0 \<le> k then take (nat k) xs else take (length xs - nat (- k)) xs)"

fun py_slice_to :: "pyval \<Rightarrow> int \<Rightarrow> exn + pyval" where
  "py_slice_to (PList xs) k = Inr (PList (slice_to xs k))"
| "py_slice_to (PStr s) k = Inr (PStr (slice_to s k))"
| "py_slice_to _ k = Inl TypeError"

section \<open>Agent creation strategies\<close>

subsection \<open>Messages and the termination predicate\<close>

text \<open>A chat message is a dict. Both strategies pass the same lambda as
  \<^verbatim>\<open>is_termination_msg\<close>:
  \<^verbatim>\<open>lambda msg: msg.get("content") is not None and "TERMINATE" in msg["content"]\<close>.
  \<^verbatim>\<open>msg.get\<close> gives None for a missing key, and \<^verbatim>\<open>and\<close> does not evaluate its
  right operand then.\<close>

type_synonym message = "(string \<times> pyval) list"

definition is_termination_msg_lambda :: "message \<Rightarrow> exn + bool" where
  "is_termination_msg_lambda msg =
     (case map_of msg ''content'' of
        None \<Rightarrow> Inr False
      | Some PNone \<Rightarrow> Inr False
      | Some v \<Rightarrow> py_in ''TERMINATE'' v)"

text \<open>The messages whose content, when present and not None, is text.\<close>

definition content_is_text :: "message \<Rightarrow> bool" where
  "content_is_text msg =
     (case map_of msg ''content'' of
        None \<Rightarrow> True
      | Some PNone \<Rightarrow> True
      | Some (PStr c) \<Rightarrow> True
      | Some _ \<Rightarrow> False)"

subsection \<open>Agents\<close>

text \<open>
  An agent is an object of the orchestration framework. The model keeps what this code
  gives to the framework: the class instantiated, the constructor's keyword arguments
  (\<open>None\<close> for an argument that is not passed), and the tools registered on the agent
  afterwards, by name: \<open>llm_tools\<close> are the tools the agent may propose (name and
  description), \<open>function_map\<close> the tools it executes. The LLM configuration is opaque.
\<close>

datatype agent_class = UserProxyAgent | AssistantAgent

record 'cfg agent =
  agent_class :: agent_class
  name :: string
  system_message :: string
  description :: "string option"
  human_input_mode :: string
  code_execution_config :: "pyval option"
  llm_config :: "'cfg option"
  is_termination_msg :: "(message \<Rightarrow> exn + bool) option"
  llm_tools :: "(string \<times> string) list"
  function_map :: "string list"

definition register_for_llm :: "string \<Rightarrow> string \<Rightarrow> 'cfg agent \<Rightarrow> 'cfg agent" where
  "register_for_llm nm descr caller = caller\<lparr>llm_tools := llm_tools caller @ [(nm, descr)]\<rparr>"

definition register_for_execution :: "string \<Rightarrow> 'cfg agent \<Rightarrow> 'cfg agent" where
  "register_for_execution nm executor = executor\<lparr>function_map := function_map executor @ [nm]\<rparr>"

text \<open>\<^verbatim>\<open>register_function(f, caller=, executor=, name=, description=)\<close> updates both
  objects; the model returns the updated pair (caller, executor).\<close>

definition register_function ::
  "string \<Rightarrow> string \<Rightarrow> 'cfg agent \<times> 'cfg agent \<Rightarrow> 'cfg agent \<times> 'cfg agent" where
  "register_function nm descr ce =
     (register_for_llm nm descr (fst ce), register_for_execution nm (snd ce))"

text \<open>What \<^verbatim>\<open>create_agents\<close> returns: the advisor strategy returns a dict with the keys
  \<^verbatim>\<open>agents\<close>, \<^verbatim>\<open>transitions\<close> and \<^verbatim>\<open>transitions_type\<close>, the few-shot strategy a
  plain list of agents. The transitions dict is keyed by agent objects; it is an
  association list in insertion order.\<close>

record 'cfg agent_configuration =
  agents :: "'cfg agent list"
  transitions :: "('cfg agent \<times> 'cfg agent list) list"
  transitions_type :: string

datatype 'cfg create_agents_result =
    Configuration "'cfg agent_configuration"
  | AgentList "'cfg agent list"

fun result_agents :: "'cfg create_agents_result \<Rightarrow> 'cfg agent list" where
  "result_agents (Configuration c) = agents c"
| "result_agents (AgentList ags) = ags"

fun result_transitions ::
  "'cfg create_agents_result \<Rightarrow> ('cfg agent \<times> 'cfg agent list) list option" where
  "result_transitions (Configuration c) = Some (transitions c)"
| "result_transitions (AgentList ags) = None"

subsection \<open>NL2SQLAdvisorStrategy\<close>

definition advisor_max_rounds :: "'self \<Rightarrow> int" where
  "advisor_max_rounds self = 30"

definition advisor_send_introductions :: "'self \<Rightarrow> bool" where
  "advisor_send_introductions self = True"

text \<open>
  \<^verbatim>\<open>create_agents(self, llm_config, history)\<close>. The methods \<^verbatim>\<open>_read_prompt\<close> and
  \<^verbatim>\<open>_summarize_conversation\<close> belong to the base class, which is not part of the
  sources at hand: they are the parameters \<open>read_prompt\<close> (prompt name, optional
  placeholders) and \<open>summarize_conversation\<close>. The agents are objects that the
  registrations update in place and that the returned dict refers to; the model threads
  the three of them through the registrations, in the order of the source.
\<close>

definition advisor_create_agents ::
  "(string \<Rightarrow> (string \<times> string) list option \<Rightarrow> string) \<Rightarrow> ('h \<Rightarrow> string) \<Rightarrow> 'cfg \<Rightarrow> 'h
     \<Rightarrow> 'cfg create_agents_result" where
  "advisor_create_agents read_prompt summarize_conversation cfg history =
     (let user_proxy_prompt = read_prompt ''user_proxy'' None;
          user_proxy = \<lparr>agent_class = UserProxyAgent, name = ''user'',
             system_message = user_proxy_prompt, description = None,
             human_input_mode = ''NEVER'', code_execution_config = Some (PBool False),
             llm_config = None, is_termination_msg = Some is_termination_msg_lambda,
             llm_tools = [], function_map = []\<rparr>;
          conversation_summary = summarize_conversation history;
          assistant_prompt =
             read_prompt ''nl2sql_assistant'' (Some [(''conversation_summary'', conversation_summary)]);
          assistant = \<lparr>agent_class = AssistantAgent, name = ''assistant'',
             system_message = assistant_prompt,
             description = Some ''Generates SQL queries, considers advisor recommendations, and executes queries after feedback.'',
             human_input_mode = ''NEVER'', code_execution_config = None,
             llm_config = Some cfg, is_termination_msg = Some is_termination_msg_lambda,
             llm_tools = [], function_map = []\<rparr>;
          advisor_prompt = read_prompt ''advisor'' None;
          advisor = \<lparr>agent_class = AssistantAgent, name = ''advisor'',
             system_message = advisor_prompt,
             description = Some ''Reviews and rewrites SQL queries as needed for optimal execution.'',
             human_input_mode = ''NEVER'', code_execution_config = None,
             llm_config = Some cfg, is_termination_msg = None,
             llm_tools = [], function_map = []\<rparr>;
          (assistant, user_proxy) = register_function ''get_schema_info''
             ''Retrieve a list of all table names and their descriptions from the data dictionary.''
             (assistant, user_proxy);
          (assistant, user_proxy) = register_function ''get_all_tables_info''
             ''Retrieve schema information from the data dictionary. Provide table_name or column_name to get information about the table or column.''
             (assistant, user_proxy);
          assistant = register_for_llm ''execute_sql_query''
             ''Execute an SQL query and return the results as a list of dictionaries. Each dictionary represents a row.''
             assistant;
          user_proxy = register_for_execution ''execute_sql_query'' user_proxy;
          (advisor, user_proxy) = register_function ''validate_sql_query''
             ''Validate the syntax of an SQL query. Returns is_valid as True if valid, or is_valid as False with an error message if invalid.''
             (advisor, user_proxy);
          (assistant, user_proxy) = register_function ''get_today_date''
             (''Provides today'' @ [CHR 0x27] @ ''s date in the format YYYY-MM-DD.'')
             (assistant, user_proxy);
          (assistant, user_proxy) = register_function ''get_time''
             ''Provides the current time in the format HH:MM.''
             (assistant, user_proxy);
          allowed_transitions =
             [(advisor, [user_proxy, assistant]),
              (user_proxy, [assistant]),
              (assistant, [advisor, user_proxy])]
      in Configuration \<lparr>agents = [user_proxy, assistant, advisor],
            transitions = allowed_transitions,
            transitions_type = ''allowed''\<rparr>)"

subsection \<open>NL2SQLSingleAgentFewshotCreationStrategy\<close>

definition fewshot_max_rounds :: "'self \<Rightarrow> int" where
  "fewshot_max_rounds self = 20"

definition fewshot_send_introductions :: "'self \<Rightarrow> bool" where
  "fewshot_send_introductions self = False"

definition fewshot_create_agents ::
  "(string \<Rightarrow> (string \<times> string) list option \<Rightarrow> string) \<Rightarrow> ('h \<Rightarrow> string) \<Rightarrow> 'cfg \<Rightarrow> 'h
     \<Rightarrow> 'cfg create_agents_result" where
  "fewshot_create_agents read_prompt summarize_conversation cfg history =
     (let user_proxy_prompt = read_prompt ''user_proxy'' None;
          user_proxy = \<lparr>agent_class = UserProxyAgent, name = ''user'',
             system_message = user_proxy_prompt, description = None,
             human_input_mode = ''NEVER'', code_execution_config = Some (PBool False),
             llm_config = None, is_termination_msg = Some is_termination_msg_lambda,
             llm_tools = [], function_map = []\<rparr>;
          conversation_summary = summarize_conversation history;
          assistant_prompt =
             read_prompt ''nl2sql_assistant'' (Some [(''conversation_summary'', conversation_summary)]);
          assistant = \<lparr>agent_class = AssistantAgent, name = ''assistant'',
             system_message = assistant_prompt, description = None,
             human_input_mode = ''NEVER'', code_execution_config = None,
             llm_config = Some cfg, is_termination_msg = None,
             llm_tools = [], function_map = []\<rparr>;
          (assistant, user_proxy) = register_function ''get_schema_info''
             ''Retrieve a list of all table names and their descriptions from the data dictionary.''
             (assistant, user_proxy);
          (assistant, user_proxy) = register_function ''get_all_tables_info''
             ''Retrieve schema information from the data dictionary. Provide table_name or column_name to get information about the table or column.''
             (assistant, user_proxy);
          (assistant, user_proxy) = register_function ''validate_sql_query''
             ''Validate the syntax of an SQL query. Returns is_valid as True if valid, or is_valid as False with an error message if invalid.''
             (assistant, user_proxy);
          (assistant, user_proxy) = register_function ''execute_sql_query''
             ''Execute an SQL query and return the results as a list of dictionaries. Each dictionary represents a row.''
             (assistant, user_proxy);
          (assistant, user_proxy) = register_function ''vector_index_retrieve''
             ''Search for similar queries before the assistant generate a new query. Return sources.''
             (assistant, user_proxy)
      in AgentList [user_proxy, assistant])"

section \<open>Retrieval tools\<close>

subsection \<open>Collaborators\<close>

text \<open>
  The tools talk to collaborators that are not part of this code: the process
  environment, the embedding client, the credential, the HTTP library. One invocation
  runs against a \<open>world\<close> that fixes what each of them answers; an answer is either a
  raised exception or a value. \<^verbatim>\<open>response.json()\<close> is a method of the response object,
  so its outcome is a field of the response.

  Each function returns, next to its result, the calls it made to collaborators, in
  order, each with its arguments and outcome. Reading the environment, logging and
  reading the clock are not recorded: they do not influence the result.
\<close>

record response =
  status_code :: int
  response_text :: string
  response_json :: "exn + pyval"

record world =
  getenv :: "string \<Rightarrow> string option"
  AzureOpenAIClient :: "exn + unit"
  DefaultAzureCredential :: "exn + unit"
  get_embeddings :: "string \<Rightarrow> exn + pyval"
  get_token :: "string \<Rightarrow> exn + string"
  requests_post :: "string \<Rightarrow> (string \<times> string) list \<Rightarrow> (string \<times> pyval) list \<Rightarrow> exn + response"
  requests_get :: "string \<Rightarrow> (string \<times> string) list \<Rightarrow> exn + response"

datatype call =
    NewAzureOpenAIClient "exn + unit"
  | NewDefaultAzureCredential "exn + unit"
  | GetEmbeddings string "exn + pyval"
  | GetToken string "exn + string"
  | RequestsPost string "(string \<times> string) list" "(string \<times> pyval) list" "exn + response"
  | RequestsGet string "(string \<times> string) list" "exn + response"

text \<open>The calls that go to a remote service: the embedding request, the token request
  and the two HTTP requests. Constructing a client object is local.\<close>

fun is_service_call :: "call \<Rightarrow> bool" where
  "is_service_call (NewAzureOpenAIClient r) = False"
| "is_service_call (NewDefaultAzureCredential r) = False"
| "is_service_call (GetEmbeddings q r) = True"
| "is_service_call (GetToken scope r) = True"
| "is_service_call (RequestsPost url hs b r) = True"
| "is_service_call (RequestsGet url ps r) = True"

text \<open>The operation a call stands for, by the name the code calls it with.\<close>

fun call_name :: "call \<Rightarrow> string" where
  "call_name (NewAzureOpenAIClient r) = ''AzureOpenAIClient''"
| "call_name (NewDefaultAzureCredential r) = ''DefaultAzureCredential''"
| "call_name (GetEmbeddings q r) = ''get_embeddings''"
| "call_name (GetToken scope r) = ''get_token''"
| "call_name (RequestsPost url hs b r) = ''requests.post''"
| "call_name (RequestsGet url ps r) = ''requests.get''"

fun is_search_request :: "call \<Rightarrow> bool" where
  "is_search_request (RequestsPost url hs b r) = True"
| "is_search_request (RequestsGet url ps r) = True"
| "is_search_request _ = False"

text \<open>\<^verbatim>\<open>os.getenv(key, default)\<close>: the variable's value, a string, when it is set, else
  the default, which need not be a string.\<close>

definition os_getenv :: "world \<Rightarrow> string \<Rightarrow> pyval \<Rightarrow> pyval" where
  "os_getenv w key dflt = (case getenv w key of None \<Rightarrow> dflt | Some s \<Rightarrow> PStr s)"

definition os_getenv_str :: "world \<Rightarrow> string \<Rightarrow> string \<Rightarrow> string" where
  "os_getenv_str w key dflt = (case getenv w key of None \<Rightarrow> dflt | Some s \<Rightarrow> s)"

text \<open>An optional string inside an f-string: \<^verbatim>\<open>None\<close> is formatted as its name.\<close>

definition format_optional :: "string option \<Rightarrow> string" where
  "format_optional x = (case x of None \<Rightarrow> ''None'' | Some s \<Rightarrow> s)"

definition newline :: string where
  "newline = [CHR 0x0A]"

text \<open>The loop \<^verbatim>\<open>for doc in docs: search_results.append(entry(doc))\<close>: the entries are
  appended one by one, and an exception in the middle leaves the earlier ones in the
  list.\<close>

fun append_entries ::
  "(pyval \<Rightarrow> exn + string) \<Rightarrow> pyval list \<Rightarrow> string list \<Rightarrow> string list \<times> exn option" where
  "append_entries entry [] search_results = (search_results, None)"
| "append_entries entry (doc # docs) search_results =
     (case entry doc of
        Inl e \<Rightarrow> (search_results, Some e)
      | Inr s \<Rightarrow> append_entries entry docs (search_results @ [s]))"

subsection \<open>vector_index_retrieve\<close>

text \<open>\<^verbatim>\<open>doc['filepath'] + ": " + doc['content'].strip() + "\n"\<close>, evaluated left to
  right.\<close>

definition vir_entry :: "pyval \<Rightarrow> exn + string" where
  "vir_entry doc =
     (case py_getitem doc ''filepath'' of Inl e \<Rightarrow> Inl e | Inr fp \<Rightarrow>
      case py_add_str fp '': '' of Inl e \<Rightarrow> Inl e | Inr a \<Rightarrow>
      case py_getitem doc ''content'' of Inl e \<Rightarrow> Inl e | Inr c \<Rightarrow>
      case py_strip_method c of Inl e \<Rightarrow> Inl e | Inr b \<Rightarrow>
      Inr (a @ b @ newline))"

text \<open>The list with the one vector query of the request body; \<^verbatim>\<open>int(search_top_k)\<close>
  may raise.\<close>

definition vector_queries :: "pyval \<Rightarrow> pyval \<Rightarrow> exn + pyval" where
  "vector_queries embeddings_query search_top_k =
     (case py_int search_top_k of
        Inl e \<Rightarrow> Inl e
      | Inr k \<Rightarrow> Inr (PList [PDict [(''kind'', PStr ''vector''), (''vector'', embeddings_query),
                                   (''fields'', PStr ''contentVector''), (''k'', PInt k)]]))"

text \<open>The request body (the lines under \<^verbatim>\<open># prepare body\<close>). An assignment
  \<^verbatim>\<open>body[k] = v\<close> is \<open>AList.update\<close>.\<close>

definition build_body ::
  "pyval \<Rightarrow> string \<Rightarrow> pyval \<Rightarrow> string \<Rightarrow> string \<Rightarrow> pyval \<Rightarrow> exn + (string \<times> pyval) list" where
  "build_body search_top_k search_approach use_semantic semantic_search_config
       search_query embeddings_query =
     (let body = [(''select'', PStr ''title, content, url, filepath, chunk_id''),
                  (''top'', search_top_k)];
          body_approach =
            (if search_approach = ''term'' then
               Inr (AList.update ''search'' (PStr search_query) body)
             else if search_approach = ''vector'' then
               (case vector_queries embeddings_query search_top_k of
                  Inl e \<Rightarrow> Inl e
                | Inr vq \<Rightarrow> Inr (AList.update ''vectorQueries'' vq body))
             else if search_approach = ''hybrid'' then
               (case vector_queries embeddings_query search_top_k of
                  Inl e \<Rightarrow> Inl e
                | Inr vq \<Rightarrow>
                    Inr (AList.update ''vectorQueries'' vq
                          (AList.update ''search'' (PStr search_query) body)))
             else Inr body)
      in case body_approach of
           Inl e \<Rightarrow> Inl e
         | Inr body \<Rightarrow>
             Inr (if use_semantic = PStr ''true'' \<and> search_approach \<noteq> ''vector'' then
                    AList.update ''semanticConfiguration'' (PStr semantic_search_config)
                      (AList.update ''queryType'' (PStr ''semantic'') body)
                  else body))"

text \<open>What follows the POST, from \<^verbatim>\<open>status_code = response.status_code\<close> to the end of
  the \<^verbatim>\<open>else\<close> branch: the collected entries, and the exception that ended the block, if
  any. The body is parsed before the status is looked at.\<close>

definition vir_handle_response :: "response \<Rightarrow> string list \<times> exn option" where
  "vir_handle_response response =
     (case response_json response of Inl e \<Rightarrow> ([], Some e) | Inr json \<Rightarrow>
      if status_code response \<ge> 400 then ([], None)
      else
        case py_getitem json ''value'' of Inl e \<Rightarrow> ([], Some e) | Inr docs \<Rightarrow>
        if truthy docs then
          case py_len docs of Inl e \<Rightarrow> ([], Some e) | Inr n \<Rightarrow>
          case py_iter docs of Inl e \<Rightarrow> ([], Some e) | Inr ds \<Rightarrow>
          append_entries vir_entry ds []
        else ([], None))"

text \<open>The \<^verbatim>\<open>try\<close> block: the calls made, the entries collected, and the exception caught
  by \<^verbatim>\<open>except Exception\<close>, if any.\<close>

definition vir_try ::
  "world \<Rightarrow> string \<Rightarrow> pyval \<Rightarrow> string \<Rightarrow> pyval \<Rightarrow> string \<Rightarrow> string option \<Rightarrow> string \<Rightarrow> string
     \<Rightarrow> call list \<times> string list \<times> exn option" where
  "vir_try w search_query search_top_k search_approach use_semantic semantic_search_config
       search_service search_index search_api_version =
     (let credential = DefaultAzureCredential w;
          tr = [NewDefaultAzureCredential credential]
      in case credential of Inl e \<Rightarrow> (tr, [], Some e) | Inr u \<Rightarrow>
      let embeddings = get_embeddings w search_query;
          tr = tr @ [GetEmbeddings search_query embeddings]
      in case embeddings of Inl e \<Rightarrow> (tr, [], Some e) | Inr embeddings_query \<Rightarrow>
      let scope = ''https://search.azure.com/.default'';
          token = get_token w scope;
          tr = tr @ [GetToken scope token]
      in case token of Inl e \<Rightarrow> (tr, [], Some e) | Inr azureSearchKey \<Rightarrow>
      case build_body search_top_k search_approach use_semantic semantic_search_config
             search_query embeddings_query of
        Inl e \<Rightarrow> (tr, [], Some e)
      | Inr body \<Rightarrow>
      let headers = [(''Content-Type'', ''application/json''),
                     (''Authorization'', ''Bearer '' @ azureSearchKey)];
          search_endpoint = ''https://'' @ format_optional search_service
             @ ''.search.windows.net/indexes/'' @ search_index
             @ ''/docs/search?api-version='' @ search_api_version;
          posted = requests_post w search_endpoint headers body;
          tr = tr @ [RequestsPost search_endpoint headers body posted]
      in case posted of Inl e \<Rightarrow> (tr, [], Some e) | Inr response \<Rightarrow>
      (tr, vir_handle_response response))"

text \<open>
  \<^verbatim>\<open>vector_index_retrieve(input)\<close>. The embedding client is constructed before the
  \<^verbatim>\<open>try\<close> block, so an exception of its constructor leaves the function; every other
  exception is caught and logged, and the function returns the entries collected so far,
  joined by a space.
\<close>

definition vector_index_retrieve :: "world \<Rightarrow> string \<Rightarrow> call list \<times> (exn + string)" where
  "vector_index_retrieve w input =
     (let aoai = AzureOpenAIClient w
      in case aoai of Inl e \<Rightarrow> ([NewAzureOpenAIClient aoai], Inl e) | Inr u \<Rightarrow>
      let search_top_k = os_getenv w ''AZURE_SEARCH_TOP_K'' (PInt 3);
          search_approach = os_getenv_str w ''AZURE_SEARCH_APPROACH'' ''hybrid'';
          use_semantic = os_getenv w ''AZURE_SEARCH_USE_SEMANTIC'' (PBool False);
          semantic_search_config =
            os_getenv_str w ''AZURE_SEARCH_SEMANTIC_SEARCH_CONFIG'' ''my-semantic-config'';
          search_service = getenv w ''AZURE_SEARCH_SERVICE'';
          search_index = os_getenv_str w ''AZURE_SEARCH_INDEX'' ''ragindex'';
          search_api_version = os_getenv_str w ''AZURE_SEARCH_API_VERSION'' ''2024-07-01'';
          search_query = input;
          (tr, search_results, err) =
            vir_try w search_query search_top_k search_approach use_semantic
              semantic_search_config search_service search_index search_api_version;
          sources = py_join '' '' search_results
      in (NewAzureOpenAIClient aoai # tr, Inr sources))"

text \<open>The request body of an invocation, as a function of the world, the query and the
  embedding: \<open>build_body\<close> at the settings that \<open>vector_index_retrieve\<close> reads from the
  environment.\<close>

definition request_body :: "world \<Rightarrow> string \<Rightarrow> pyval \<Rightarrow> exn + (string \<times> pyval) list" where
  "request_body w input embeddings_query =
     build_body (os_getenv w ''AZURE_SEARCH_TOP_K'' (PInt 3))
       (os_getenv_str w ''AZURE_SEARCH_APPROACH'' ''hybrid'')
       (os_getenv w ''AZURE_SEARCH_USE_SEMANTIC'' (PBool False))
       (os_getenv_str w ''AZURE_SEARCH_SEMANTIC_SEARCH_CONFIG'' ''my-semantic-config'')
       input embeddings_query"

subsection \<open>cogmo_search\<close>

text \<open>\<^verbatim>\<open>doc['title'] + ": " + doc['highlighting'].strip() + "\n"\<close>.\<close>

definition cogmo_entry :: "pyval \<Rightarrow> exn + string" where
  "cogmo_entry doc =
     (case py_getitem doc ''title'' of Inl e \<Rightarrow> Inl e | Inr t \<Rightarrow>
      case py_add_str t '': '' of Inl e \<Rightarrow> Inl e | Inr a \<Rightarrow>
      case py_getitem doc ''highlighting'' of Inl e \<Rightarrow> Inl e | Inr h \<Rightarrow>
      case py_strip_method h of Inl e \<Rightarrow> Inl e | Inr b \<Rightarrow>
      Inr (a @ b @ newline))"

text \<open>What follows the GET. In \<^verbatim>\<open>json['response']['docs'][0:int(search_top_k)]\<close> the
  document list is evaluated first, then the bound, then the slice is taken.\<close>

definition cogmo_handle_response :: "pyval \<Rightarrow> response \<Rightarrow> string list \<times> exn option" where
  "cogmo_handle_response search_top_k response =
     (case response_json response of Inl e \<Rightarrow> ([], Some e) | Inr json \<Rightarrow>
      if status_code response \<ge> 400 then ([], None)
      else
        case py_getitem json ''response'' of Inl e \<Rightarrow> ([], Some e) | Inr r \<Rightarrow>
        case py_getitem r ''docs'' of Inl e \<Rightarrow> ([], Some e) | Inr docs \<Rightarrow>
        if truthy docs then
          case py_len docs of Inl e \<Rightarrow> ([], Some e) | Inr n \<Rightarrow>
          case py_int search_top_k of Inl e \<Rightarrow> ([], Some e) | Inr k \<Rightarrow>
          case py_slice_to docs k of Inl e \<Rightarrow> ([], Some e) | Inr first \<Rightarrow>
          case py_iter first of Inl e \<Rightarrow> ([], Some e) | Inr ds \<Rightarrow>
          append_entries cogmo_entry ds []
        else ([], None))"

text \<open>\<^verbatim>\<open>cogmo_search(input)\<close>: nothing runs outside the \<^verbatim>\<open>try\<close> block but reading the
  environment, so the function always returns a string.\<close>

definition cogmo_search :: "world \<Rightarrow> string \<Rightarrow> call list \<times> string" where
  "cogmo_search w input =
     (let search_top_k = os_getenv w ''AZURE_SEARCH_TOP_K'' (PInt 3);
          cogmo_id = os_getenv_str w ''COGMO_ID'' [];
          search_query = input;
          search_endpoint = ''https://search.cogmo.jp/api/v3/'' @ cogmo_id @ ''/collection'';
          params = [(''query'', search_query)];
          got = requests_get w search_endpoint params;
          (search_results, err) =
            (case got of
               Inl e \<Rightarrow> ([], Some e)
             | Inr response \<Rightarrow> cogmo_handle_response search_top_k response);
          sources = py_join '' '' search_results
      in ([RequestsGet search_endpoint params got], sources))"

subsection \<open>Reading a document\<close>

text \<open>The text of a field of a document: defined when the document is a JSON object and
  the field is a string. It serves to state what a well-formed document is.\<close>

fun text_field :: "pyval \<Rightarrow> string \<Rightarrow> string option" where
  "text_field (PDict kvs) k = (case map_of kvs k of Some (PStr s) \<Rightarrow> Some s | _ \<Rightarrow> None)"
| "text_field _ k = None"

text \<open>For the index search: a well-formed document has a filepath and a content that are
  strings; its entry is the filepath, a colon and a space, the stripped content and a
  newline. The documents listed by a parsed response body are the items of the list under
  \<^verbatim>\<open>value\<close>; a body without that key, or with something else than a list there, lists
  none.\<close>

definition vir_document :: "pyval \<Rightarrow> bool" where
  "vir_document d = (text_field d ''filepath'' \<noteq> None \<and> text_field d ''content'' \<noteq> None)"

definition vir_entry_text :: "pyval \<Rightarrow> string" where
  "vir_entry_text d =
     the (text_field d ''filepath'') @ '': '' @ py_strip (the (text_field d ''content'')) @ newline"

definition listed_documents :: "pyval \<Rightarrow> pyval list" where
  "listed_documents json =
     (case py_getitem json ''value'' of Inr (PList docs) \<Rightarrow> docs | _ \<Rightarrow> [])"

section \<open>Example worlds\<close>

text \<open>Concrete worlds on which the tools are run below. In \<open>example_world\<close> no variable
  of the environment is set, every collaborator answers, and the search service returns
  two documents.\<close>

definition example_docs :: "pyval list" where
  "example_docs =
     [PDict [(''filepath'', PStr ''orders.sql''),
             (''content'', PStr (''  select 1 '' @ newline)),
             (''@search.score'', PFloat 3 (- 2))],
      PDict [(''content'', PStr ''from t''), (''filepath'', PStr ''b.sql'')]]"

definition example_response :: response where
  "example_response =
     \<lparr>status_code = 200, response_text = ''two documents'',
      response_json = Inr (PDict [(''value'', PList example_docs)])\<rparr>"

definition example_world :: world where
  "example_world =
     \<lparr>getenv = (\<lambda>key. None),
      AzureOpenAIClient = Inr (),
      DefaultAzureCredential = Inr (),
      get_embeddings = (\<lambda>q. Inr (PList [PFloat 1 (- 1), PFloat (- 3) (- 4)])),
      get_token = (\<lambda>scope. Inr ''tok''),
      requests_post = (\<lambda>url hs b. Inr example_response),
      requests_get = (\<lambda>url ps. Inl (Raised ''unreachable''))\<rparr>"

text \<open>The search service answers 503 with an error body.\<close>

definition busy_response :: response where
  "busy_response =
     \<lparr>status_code = 503, response_text = ''busy'',
      response_json = Inr (PDict [(''error'', PStr ''busy'')])\<rparr>"

definition busy_world :: world where
  "busy_world = example_world\<lparr>requests_post := (\<lambda>url hs b. Inr busy_response)\<rparr>"

text \<open>The search service answers 200, and its second document has no content.\<close>

definition incomplete_response :: response where
  "incomplete_response =
     \<lparr>status_code = 200, response_text = ''two documents'',
      response_json =
        Inr (PDict [(''value'',
               PList [PDict [(''filepath'', PStr ''orders.sql''), (''content'', PStr ''select 1'')],
                      PDict [(''filepath'', PStr ''b.sql'')]])])\<rparr>"

definition incomplete_world :: world where
  "incomplete_world = example_world\<lparr>requests_post := (\<lambda>url hs b. Inr incomplete_response)\<rparr>"

text \<open>\<^verbatim>\<open>AZURE_SEARCH_USE_SEMANTIC=true\<close>, nothing else set.\<close>

definition semantic_world :: world where
  "semantic_world =
     example_world\<lparr>getenv :=
       (\<lambda>key. if key = ''AZURE_SEARCH_USE_SEMANTIC'' then Some ''true'' else None)\<rparr>"

text \<open>The cogmo service returns three documents; \<^verbatim>\<open>AZURE_SEARCH_TOP_K\<close> is the
  parameter.\<close>

definition cogmo_docs :: "pyval list" where
  "cogmo_docs =
     [PDict [(''title'', PStr ''a''), (''highlighting'', PStr '' x '')],
      PDict [(''title'', PStr ''b''), (''highlighting'', PStr ''y'')],
      PDict [(''title'', PStr ''c''), (''highlighting'', PStr ''z'')]]"

definition cogmo_response :: response where
  "cogmo_response =
     \<lparr>status_code = 200, response_text = ''three documents'',
      response_json = Inr (PDict [(''response'', PDict [(''docs'', PList cogmo_docs)])])\<rparr>"

definition cogmo_world :: "string option \<Rightarrow> world" where
  "cogmo_world top_k =
     \<lparr>getenv = (\<lambda>key. if key = ''AZURE_SEARCH_TOP_K'' then top_k else None),
      AzureOpenAIClient = Inr (),
      DefaultAzureCredential = Inr (),
      get_embeddings = (\<lambda>q. Inl (Raised ''unreachable'')),
      get_token = (\<lambda>scope. Inl (Raised ''unreachable'')),
      requests_post = (\<lambda>url hs b. Inl (Raised ''unreachable'')),
      requests_get = (\<lambda>url ps. Inr cogmo_response)\<rparr>"

section \<open>Properties of the strategies\<close>

lemma starts_with_iff: "starts_with s p \<longleftrightarrow> (\<exists>ss. s = p @ ss)"
  by (induction s p rule: starts_with.induct) auto

lemma str_contains_iff: "str_contains hay needle \<longleftrightarrow> (\<exists>ps ss. hay = ps @ needle @ ss)"
proof (induction hay)
  case Nil
  then show ?case by auto
next
  case (Cons c cs)
  have "(\<exists>ps ss. c # cs = ps @ needle @ ss) \<longleftrightarrow>
        (\<exists>ss. c # cs = needle @ ss) \<or> (\<exists>ps ss. cs = ps @ needle @ ss)"
  proof
    assume "\<exists>ps ss. c # cs = ps @ needle @ ss"
    then obtain ps ss where eq: "c # cs = ps @ needle @ ss" by blast
    show "(\<exists>ss. c # cs = needle @ ss) \<or> (\<exists>ps ss. cs = ps @ needle @ ss)"
    proof (cases ps)
      case Nil
      with eq show ?thesis by auto
    next
      case (Cons q qs)
      with eq have "cs = qs @ needle @ ss" by simp
      then show ?thesis by blast
    qed
  next
    assume "(\<exists>ss. c # cs = needle @ ss) \<or> (\<exists>ps ss. cs = ps @ needle @ ss)"
    then show "\<exists>ps ss. c # cs = ps @ needle @ ss"
    proof
      assume "\<exists>ss. c # cs = needle @ ss"
      then obtain ss where "c # cs = [] @ needle @ ss" by auto
      then show ?thesis by blast
    next
      assume "\<exists>ps ss. cs = ps @ needle @ ss"
      then obtain ps ss where "c # cs = (c # ps) @ needle @ ss" by auto
      then show ?thesis by blast
    qed
  qed
  with Cons show ?case by (simp add: starts_with_iff)
qed

text \<open>
  Claim C4. The round cap is 30 for the advisor strategy and 20 for the single-agent
  few-shot strategy: each \<^verbatim>\<open>max_rounds\<close> property returns that constant whatever the
  state of the strategy object.
\<close>

theorem max_rounds_constants:
  "advisor_max_rounds self = 30 \<and> fewshot_max_rounds self' = 20"
  by (simp add: advisor_max_rounds_def fewshot_max_rounds_def)

lemmas create_agents_eval =
  advisor_create_agents_def fewshot_create_agents_def Let_def
  register_function_def register_for_llm_def register_for_execution_def

text \<open>
  Claim C1. In the advisor scenario the transition table returned by \<open>create_agents\<close> is
  exactly the fixed adjacency: the user proxy may hand off only to the assistant, the
  assistant to the advisor and the user proxy, the advisor to the user proxy and the
  assistant; and the transitions are marked as an allowed-list. The agents of the table
  are the three agents returned, named user, assistant and advisor.
\<close>

theorem advisor_transition_table:
  "\<exists>u a d. advisor_create_agents read_prompt summarize_conversation cfg history =
      Configuration \<lparr>agents = [u, a, d],
         transitions = [(d, [u, a]), (u, [a]), (a, [d, u])],
         transitions_type = ''allowed''\<rparr>
      \<and> name u = ''user'' \<and> agent_class u = UserProxyAgent
      \<and> name a = ''assistant'' \<and> agent_class a = AssistantAgent
      \<and> name d = ''advisor'' \<and> agent_class d = AssistantAgent"
  by (simp add: create_agents_eval)

text \<open>
  Claim C10. In the transition table built by the advisor strategy no agent appears in
  its own successor set, and every successor listed for an agent is one of the three
  agents created in the same call. This holds of the agent objects and of their names.
\<close>

theorem advisor_transitions_closed_no_self_loop:
  assumes "result_transitions (advisor_create_agents read_prompt summarize_conversation cfg history)
             = Some table"
      and "(a, successors) \<in> set table"
  shows "a \<notin> set successors
       \<and> name a \<notin> set (map name successors)
       \<and> set successors
           \<subseteq> set (result_agents (advisor_create_agents read_prompt summarize_conversation cfg history))
       \<and> length (result_agents (advisor_create_agents read_prompt summarize_conversation cfg history)) = 3"
  using assms by (auto simp: create_agents_eval)

theorem advisor_transitions_closed_no_self_loop_witness:
  "result_transitions (advisor_create_agents (\<lambda>p ph. p) (\<lambda>h. h) ''gpt'' ''hello'')
     = Some (the (result_transitions (advisor_create_agents (\<lambda>p ph. p) (\<lambda>h. h) ''gpt'' ''hello'')))
   \<and> hd (the (result_transitions (advisor_create_agents (\<lambda>p ph. p) (\<lambda>h. h) ''gpt'' ''hello'')))
       \<in> set (the (result_transitions (advisor_create_agents (\<lambda>p ph. p) (\<lambda>h. h) ''gpt'' ''hello'')))
   \<and> name (fst (hd (the (result_transitions
         (advisor_create_agents (\<lambda>p ph. p) (\<lambda>h. h) ''gpt'' ''hello''))))) = ''advisor''
   \<and> map name (snd (hd (the (result_transitions
         (advisor_create_agents (\<lambda>p ph. p) (\<lambda>h. h) ''gpt'' ''hello''))))) = [''user'', ''assistant'']
   \<and> fst (hd (the (result_transitions (advisor_create_agents (\<lambda>p ph. p) (\<lambda>h. h) ''gpt'' ''hello''))))
       \<notin> set (snd (hd (the (result_transitions
             (advisor_create_agents (\<lambda>p ph. p) (\<lambda>h. h) ''gpt'' ''hello'')))))
   \<and> set (snd (hd (the (result_transitions
         (advisor_create_agents (\<lambda>p ph. p) (\<lambda>h. h) ''gpt'' ''hello'')))))
       \<subseteq> set (result_agents (advisor_create_agents (\<lambda>p ph. p) (\<lambda>h. h) ''gpt'' ''hello''))"
proof -
  let ?r = "advisor_create_agents (\<lambda>p ph. p) (\<lambda>h. h) ''gpt'' ''hello''"
  let ?t = "the (result_transitions ?r)"
  have table: "result_transitions ?r = Some ?t"
    by (simp add: create_agents_eval)
  have first: "(fst (hd ?t), snd (hd ?t)) \<in> set ?t"
    by (simp add: create_agents_eval)
  have names: "name (fst (hd ?t)) = ''advisor''" "map name (snd (hd ?t)) = [''user'', ''assistant'']"
    by (simp_all add: create_agents_eval)
  from advisor_transitions_closed_no_self_loop [OF table first] table first names
  show ?thesis by simp
qed

text \<open>
  Claim C6, as the code has it. The advisor variant returns its three agents together
  with a transition table; the single-agent few-shot variant returns the list of its two
  agents, user proxy then assistant, and no transition table.
\<close>

theorem create_agents_results:
  "(\<exists>table. result_transitions (advisor_create_agents read_prompt summarize_conversation cfg history)
               = Some table \<and> length table = 3)
   \<and> map name (result_agents (advisor_create_agents read_prompt summarize_conversation cfg history))
       = [''user'', ''assistant'', ''advisor'']
   \<and> result_transitions (fewshot_create_agents read_prompt summarize_conversation cfg history) = None
   \<and> (\<exists>u a. fewshot_create_agents read_prompt summarize_conversation cfg history = AgentList [u, a]
         \<and> name u = ''user'' \<and> agent_class u = UserProxyAgent
         \<and> name a = ''assistant'' \<and> agent_class a = AssistantAgent)"
  by (simp add: create_agents_eval)

text \<open>The claim as stated, that both variants return a transition table alongside their
  agents, fails for the few-shot variant: what it returns carries no table.\<close>

theorem fewshot_returns_no_transition_table:
  "result_transitions (fewshot_create_agents (\<lambda>p ph. p) (\<lambda>h. h) ''gpt'' ''hello'') = None"
  by (simp add: create_agents_eval)

text \<open>
  Claim C7. The termination predicate attached to an agent returns true if and only if
  the message's content field is not null and contains the sentinel \<^verbatim>\<open>TERMINATE\<close> as a
  substring. The predicate is the one attached by either strategy to any of its agents;
  the message is any dict whose content, when present and not None, is a string.
\<close>

theorem termination_predicate_sentinel:
  assumes "ag \<in> set (result_agents (advisor_create_agents read_prompt summarize_conversation cfg history))
              \<union> set (result_agents (fewshot_create_agents read_prompt' summarize_conversation' cfg' history'))"
      and "is_termination_msg ag = Some p"
      and "content_is_text msg"
  shows "p msg = Inr (\<exists>c. map_of msg ''content'' = Some (PStr c)
                        \<and> (\<exists>before after. c = before @ ''TERMINATE'' @ after))"
proof -
  from assms(1,2) have "p = is_termination_msg_lambda"
    by (auto simp: create_agents_eval)
  moreover from assms(3)
  have "is_termination_msg_lambda msg = Inr (\<exists>c. map_of msg ''content'' = Some (PStr c)
                        \<and> (\<exists>before after. c = before @ ''TERMINATE'' @ after))"
    by (auto simp: is_termination_msg_lambda_def content_is_text_def str_contains_iff
        split: option.splits pyval.splits)
  ultimately show ?thesis by simp
qed

theorem termination_predicate_sentinel_witness:
  "hd (result_agents (fewshot_create_agents (\<lambda>p ph. p) (\<lambda>h. h) ''gpt'' ''hello''))
     \<in> set (result_agents (advisor_create_agents (\<lambda>p ph. p) (\<lambda>h. h) ''gpt'' ''hello''))
        \<union> set (result_agents (fewshot_create_agents (\<lambda>p ph. p) (\<lambda>h. h) ''gpt'' ''hello''))
   \<and> is_termination_msg (hd (result_agents (fewshot_create_agents (\<lambda>p ph. p) (\<lambda>h. h) ''gpt'' ''hello'')))
       = Some is_termination_msg_lambda
   \<and> content_is_text [(''role'', PStr ''assistant''), (''content'', PStr ''Done. TERMINATE'')]
   \<and> is_termination_msg_lambda [(''role'', PStr ''assistant''), (''content'', PStr ''Done. TERMINATE'')]
       = Inr True
   \<and> (\<exists>c. map_of [(''role'', PStr ''assistant''), (''content'', PStr ''Done. TERMINATE'')] ''content''
             = Some (PStr c)
          \<and> (\<exists>before after. c = before @ ''TERMINATE'' @ after))"
proof -
  let ?ag = "hd (result_agents (fewshot_create_agents (\<lambda>p ph. p) (\<lambda>h. h) ''gpt'' ''hello''))"
  let ?msg = "[(''role'', PStr ''assistant''), (''content'', PStr ''Done. TERMINATE'')]"
  have created: "?ag \<in> set (result_agents (advisor_create_agents (\<lambda>p ph. p) (\<lambda>h. h) ''gpt'' ''hello''))
        \<union> set (result_agents (fewshot_create_agents (\<lambda>p ph. p) (\<lambda>h. h) ''gpt'' ''hello''))"
    by (simp add: create_agents_eval)
  have attached: "is_termination_msg ?ag = Some is_termination_msg_lambda"
    by (simp add: create_agents_eval)
  have textual: "content_is_text ?msg"
    by (simp add: content_is_text_def)
  have evaluated: "is_termination_msg_lambda ?msg = Inr True"
    by (simp add: is_termination_msg_lambda_def)
  from termination_predicate_sentinel [OF created attached textual] evaluated
  have "\<exists>c. map_of ?msg ''content'' = Some (PStr c)
          \<and> (\<exists>before after. c = before @ ''TERMINATE'' @ after)"
    by simp
  with created attached textual evaluated show ?thesis by blast
qed

section \<open>Properties of the retrieval tools\<close>

lemmas world_eval =
  os_getenv_def os_getenv_str_def format_optional_def Let_def newline_def
  py_strip_def is_space_def

lemmas vir_eval =
  vector_index_retrieve_def vir_try_def build_body_def vector_queries_def
  vir_handle_response_def vir_entry_def world_eval

lemmas cogmo_eval =
  cogmo_search_def cogmo_handle_response_def cogmo_entry_def slice_to_def
  int_of_str_def int_strip_def is_int_space_def int_max_str_digits_def
  unsigned_of_str_def is_digit_def digit_value_def world_eval

subsection \<open>The shape of an invocation\<close>

text \<open>The calls of \<open>vector_index_retrieve\<close> follow one fixed sequence, which stops at the
  first exception: client, credential, embedding, token, POST. Only a response of the
  search service can make the result non-empty.\<close>

lemma vir_cases:
  assumes "vector_index_retrieve w input = (tr, res)"
  shows "(\<exists>e. tr = [NewAzureOpenAIClient (Inl e)] \<and> res = Inl e)
     \<or> (\<exists>e. tr = [NewAzureOpenAIClient (Inr ()), NewDefaultAzureCredential (Inl e)]
            \<and> res = Inr [])
     \<or> (\<exists>e. tr = [NewAzureOpenAIClient (Inr ()), NewDefaultAzureCredential (Inr ()),
                   GetEmbeddings input (Inl e)] \<and> res = Inr [])
     \<or> (\<exists>emb e. tr = [NewAzureOpenAIClient (Inr ()), NewDefaultAzureCredential (Inr ()),
                       GetEmbeddings input (Inr emb),
                       GetToken ''https://search.azure.com/.default'' (Inl e)] \<and> res = Inr [])
     \<or> (\<exists>emb tok e. request_body w input emb = Inl e
            \<and> tr = [NewAzureOpenAIClient (Inr ()), NewDefaultAzureCredential (Inr ()),
                     GetEmbeddings input (Inr emb),
                     GetToken ''https://search.azure.com/.default'' (Inr tok)] \<and> res = Inr [])
     \<or> (\<exists>emb tok url hs b e. request_body w input emb = Inr b
            \<and> tr = [NewAzureOpenAIClient (Inr ()), NewDefaultAzureCredential (Inr ()),
                     GetEmbeddings input (Inr emb),
                     GetToken ''https://search.azure.com/.default'' (Inr tok),
                     RequestsPost url hs b (Inl e)] \<and> res = Inr [])
     \<or> (\<exists>emb tok url hs b r. request_body w input emb = Inr b
            \<and> tr = [NewAzureOpenAIClient (Inr ()), NewDefaultAzureCredential (Inr ()),
                     GetEmbeddings input (Inr emb),
                     GetToken ''https://search.azure.com/.default'' (Inr tok),
                     RequestsPost url hs b (Inr r)]
            \<and> res = Inr (py_join '' '' (fst (vir_handle_response r))))"
  using assms
  by (auto simp: vector_index_retrieve_def vir_try_def request_body_def Let_def
      split: sum.splits prod.splits)

text \<open>A response in the trace decides the result.\<close>

lemma vir_responded:
  assumes run: "vector_index_retrieve w input = (tr, res)"
      and posted: "RequestsPost url hs b (Inr r) \<in> set tr"
  shows "res = Inr (py_join '' '' (fst (vir_handle_response r)))"
  using vir_cases [OF run]
proof (elim disjE exE conjE)
  fix emb tok url' hs' b' r'
  assume tr: "tr = [NewAzureOpenAIClient (Inr ()), NewDefaultAzureCredential (Inr ()),
                     GetEmbeddings input (Inr emb),
                     GetToken ''https://search.azure.com/.default'' (Inr tok),
                     RequestsPost url' hs' b' (Inr r')]"
    and res: "res = Inr (py_join '' '' (fst (vir_handle_response r')))"
  from posted have "r' = r" unfolding tr by simp
  with res show ?thesis by simp
qed (use posted in simp_all)

lemma vir_posted_body:
  assumes run: "vector_index_retrieve w input = (tr, res)"
      and posted: "RequestsPost url hs b out \<in> set tr"
  shows "\<exists>emb. request_body w input emb = Inr b"
  using vir_cases [OF run]
proof (elim disjE exE conjE)
  fix emb tok url' hs' b' e
  assume tr: "tr = [NewAzureOpenAIClient (Inr ()), NewDefaultAzureCredential (Inr ()),
                     GetEmbeddings input (Inr emb),
                     GetToken ''https://search.azure.com/.default'' (Inr tok),
                     RequestsPost url' hs' b' (Inl e)]"
    and body: "request_body w input emb = Inr b'"
  from posted have "b' = b" unfolding tr by simp
  with body show ?thesis by blast
next
  fix emb tok url' hs' b' r
  assume tr: "tr = [NewAzureOpenAIClient (Inr ()), NewDefaultAzureCredential (Inr ()),
                     GetEmbeddings input (Inr emb),
                     GetToken ''https://search.azure.com/.default'' (Inr tok),
                     RequestsPost url' hs' b' (Inr r)]"
    and body: "request_body w input emb = Inr b'"
  from posted have "b' = b" unfolding tr by simp
  with body show ?thesis by blast
qed (use posted in simp_all)

lemma vir_handle_response_failed:
  assumes "(\<exists>e. response_json r = Inl e) \<or> status_code r \<ge> 400"
  shows "fst (vir_handle_response r) = []"
  using assms by (auto simp: vir_handle_response_def split: sum.splits)

subsection \<open>Failures\<close>

text \<open>When a collaborator raises, when \<^verbatim>\<open>response.json()\<close> raises, or when the status is
  400 or more, nothing has been appended and the result is the empty string.\<close>

lemma vir_failure_empty:
  assumes run: "vector_index_retrieve w input = (tr, res)"
      and failed: "(\<exists>e. NewDefaultAzureCredential (Inl e) \<in> set tr)
         \<or> (\<exists>q e. GetEmbeddings q (Inl e) \<in> set tr)
         \<or> (\<exists>s e. GetToken s (Inl e) \<in> set tr)
         \<or> (\<exists>url hs b e. RequestsPost url hs b (Inl e) \<in> set tr)
         \<or> (\<exists>url hs b r. RequestsPost url hs b (Inr r) \<in> set tr
               \<and> ((\<exists>e. response_json r = Inl e) \<or> status_code r \<ge> 400))"
  shows "res = Inr []"
  using vir_cases [OF run]
proof (elim disjE exE conjE)
  fix e
  assume "tr = [NewAzureOpenAIClient (Inl e)]"
  with failed show ?thesis by simp
next
  fix emb tok url hs b r
  assume tr: "tr = [NewAzureOpenAIClient (Inr ()), NewDefaultAzureCredential (Inr ()),
                     GetEmbeddings input (Inr emb),
                     GetToken ''https://search.azure.com/.default'' (Inr tok),
                     RequestsPost url hs b (Inr r)]"
    and res: "res = Inr (py_join '' '' (fst (vir_handle_response r)))"
  from failed have "(\<exists>e. response_json r = Inl e) \<or> status_code r \<ge> 400"
    unfolding tr by simp
  then have "fst (vir_handle_response r) = []"
    by (rule vir_handle_response_failed)
  with res show ?thesis by simp
qed

lemma busy_world_run:
  "vector_index_retrieve busy_world ''q'' =
     ([NewAzureOpenAIClient (Inr ()), NewDefaultAzureCredential (Inr ()),
       GetEmbeddings ''q'' (Inr (PList [PFloat 1 (- 1), PFloat (- 3) (- 4)])),
       GetToken ''https://search.azure.com/.default'' (Inr ''tok''),
       RequestsPost
         ''https://None.search.windows.net/indexes/ragindex/docs/search?api-version=2024-07-01''
         [(''Content-Type'', ''application/json''), (''Authorization'', ''Bearer tok'')]
         [(''select'', PStr ''title, content, url, filepath, chunk_id''),
          (''top'', PInt 3), (''search'', PStr ''q''),
          (''vectorQueries'',
           PList [PDict [(''kind'', PStr ''vector''),
                         (''vector'', PList [PFloat 1 (- 1), PFloat (- 3) (- 4)]),
                         (''fields'', PStr ''contentVector''), (''k'', PInt 3)]])]
         (Inr busy_response)],
      Inr [])"
  by (simp add: vir_eval busy_world_def example_world_def busy_response_def)

subsection \<open>Documents\<close>

lemma append_entries_all:
  assumes "\<forall>d \<in> set docs. entry d = Inr (g d)"
  shows "append_entries entry docs acc = (acc @ map g docs, None)"
  using assms by (induction docs arbitrary: acc) simp_all

lemma vir_entry_text:
  assumes "text_field d ''filepath'' = Some f" and "text_field d ''content'' = Some c"
  shows "vir_entry d = Inr (f @ '': '' @ py_strip c @ newline)"
  using assms
  by (cases d) (auto simp: vir_entry_def split: option.splits pyval.splits)

lemma cogmo_entry_text:
  assumes "text_field d ''title'' = Some t" and "text_field d ''highlighting'' = Some h"
  shows "cogmo_entry d = Inr (t @ '': '' @ py_strip h @ newline)"
  using assms
  by (cases d) (auto simp: cogmo_entry_def split: option.splits pyval.splits)

lemma vir_handle_response_documents:
  assumes ok: "status_code r < 400"
      and parsed: "response_json r = Inr json"
      and listed: "py_getitem json ''value'' = Inr (PList docs)"
      and wf: "\<forall>d \<in> set docs. text_field d ''filepath'' \<noteq> None \<and> text_field d ''content'' \<noteq> None"
  shows "fst (vir_handle_response r) =
           map (\<lambda>d. the (text_field d ''filepath'') @ '': ''
                       @ py_strip (the (text_field d ''content'')) @ newline) docs"
proof -
  let ?g = "\<lambda>d. the (text_field d ''filepath'') @ '': ''
                       @ py_strip (the (text_field d ''content'')) @ newline"
  have "\<forall>d \<in> set docs. vir_entry d = Inr (?g d)"
  proof
    fix d
    assume "d \<in> set docs"
    with wf obtain f c where "text_field d ''filepath'' = Some f"
      and "text_field d ''content'' = Some c"
      by auto
    then show "vir_entry d = Inr (?g d)"
      by (simp add: vir_entry_text)
  qed
  then have "append_entries vir_entry docs [] = ([] @ map ?g docs, None)"
    by (rule append_entries_all)
  with ok parsed listed show ?thesis
    by (simp add: vir_handle_response_def)
qed

text \<open>
  Claim C3. In every invocation of \<open>vector_index_retrieve\<close> in which the search service
  responds with a status below 400 and a non-empty list of documents, the returned
  string is the concatenation, separated by a space and in the order received, of one
  entry per document: the document's filepath, a colon and a space, its content stripped
  of surrounding whitespace, and a newline. A document is a JSON object whose filepath
  and content are strings.
\<close>

theorem vector_index_retrieve_documents:
  assumes run: "vector_index_retrieve w input = (tr, res)"
      and posted: "RequestsPost url hs b (Inr r) \<in> set tr"
      and ok: "status_code r < 400"
      and parsed: "response_json r = Inr json"
      and listed: "py_getitem json ''value'' = Inr (PList docs)"
      and nonempty: "docs \<noteq> []"
      and wf: "\<forall>d \<in> set docs. text_field d ''filepath'' \<noteq> None \<and> text_field d ''content'' \<noteq> None"
  shows "res = Inr (py_join '' ''
           (map (\<lambda>d. the (text_field d ''filepath'') @ '': ''
                        @ py_strip (the (text_field d ''content'')) @ newline) docs))"
  using vir_responded [OF run posted] vir_handle_response_documents [OF ok parsed listed wf]
  by simp

lemma example_world_run:
  "vector_index_retrieve example_world ''q'' =
     ([NewAzureOpenAIClient (Inr ()), NewDefaultAzureCredential (Inr ()),
       GetEmbeddings ''q'' (Inr (PList [PFloat 1 (- 1), PFloat (- 3) (- 4)])),
       GetToken ''https://search.azure.com/.default'' (Inr ''tok''),
       RequestsPost
         ''https://None.search.windows.net/indexes/ragindex/docs/search?api-version=2024-07-01''
         [(''Content-Type'', ''application/json''), (''Authorization'', ''Bearer tok'')]
         [(''select'', PStr ''title, content, url, filepath, chunk_id''),
          (''top'', PInt 3), (''search'', PStr ''q''),
          (''vectorQueries'',
           PList [PDict [(''kind'', PStr ''vector''),
                         (''vector'', PList [PFloat 1 (- 1), PFloat (- 3) (- 4)]),
                         (''fields'', PStr ''contentVector''), (''k'', PInt 3)]])]
         (Inr example_response)],
      Inr (''orders.sql: select 1'' @ newline @ '' b.sql: from t'' @ newline))"
  by (simp add: vir_eval example_world_def example_response_def example_docs_def)

theorem vector_index_retrieve_documents_witness:
  "RequestsPost
      ''https://None.search.windows.net/indexes/ragindex/docs/search?api-version=2024-07-01''
      [(''Content-Type'', ''application/json''), (''Authorization'', ''Bearer tok'')]
      [(''select'', PStr ''title, content, url, filepath, chunk_id''),
       (''top'', PInt 3), (''search'', PStr ''q''),
       (''vectorQueries'',
        PList [PDict [(''kind'', PStr ''vector''),
                      (''vector'', PList [PFloat 1 (- 1), PFloat (- 3) (- 4)]),
                      (''fields'', PStr ''contentVector''), (''k'', PInt 3)]])]
      (Inr example_response)
     \<in> set (fst (vector_index_retrieve example_world ''q''))
   \<and> status_code example_response < 400
   \<and> response_json example_response = Inr (PDict [(''value'', PList example_docs)])
   \<and> py_getitem (PDict [(''value'', PList example_docs)]) ''value'' = Inr (PList example_docs)
   \<and> example_docs \<noteq> []
   \<and> list_all (\<lambda>d. text_field d ''filepath'' \<noteq> None \<and> text_field d ''content'' \<noteq> None)
        example_docs
   \<and> snd (vector_index_retrieve example_world ''q'')
       = Inr (''orders.sql: select 1'' @ newline @ '' b.sql: from t'' @ newline)"
proof -
  let ?run = "vector_index_retrieve example_world ''q''"
  have run: "?run = (fst ?run, snd ?run)" by simp
  have posted: "RequestsPost
      ''https://None.search.windows.net/indexes/ragindex/docs/search?api-version=2024-07-01''
      [(''Content-Type'', ''application/json''), (''Authorization'', ''Bearer tok'')]
      [(''select'', PStr ''title, content, url, filepath, chunk_id''),
       (''top'', PInt 3), (''search'', PStr ''q''),
       (''vectorQueries'',
        PList [PDict [(''kind'', PStr ''vector''),
                      (''vector'', PList [PFloat 1 (- 1), PFloat (- 3) (- 4)]),
                      (''fields'', PStr ''contentVector''), (''k'', PInt 3)]])]
      (Inr example_response) \<in> set (fst ?run)"
    by (simp add: example_world_run)
  have ok: "status_code example_response < 400"
    by (simp add: example_response_def)
  have parsed: "response_json example_response = Inr (PDict [(''value'', PList example_docs)])"
    by (simp add: example_response_def)
  have listed: "py_getitem (PDict [(''value'', PList example_docs)]) ''value''
                  = Inr (PList example_docs)"
    by simp
  have nonempty: "example_docs \<noteq> []"
    by (simp add: example_docs_def)
  have wf: "\<forall>d \<in> set example_docs.
              text_field d ''filepath'' \<noteq> None \<and> text_field d ''content'' \<noteq> None"
    by (simp add: example_docs_def)
  have "snd ?run = Inr (py_join '' ''
           (map (\<lambda>d. the (text_field d ''filepath'') @ '': ''
                        @ py_strip (the (text_field d ''content'')) @ newline) example_docs))"
    by (rule vector_index_retrieve_documents [OF run posted ok parsed listed nonempty wf])
  then have "snd ?run = Inr (''orders.sql: select 1'' @ newline @ '' b.sql: from t'' @ newline)"
    by (simp add: example_docs_def py_strip_def is_space_def newline_def)
  with posted ok parsed listed nonempty wf show ?thesis
    by (simp add: list_all_iff)
qed

subsection \<open>Exceptions while the response is read\<close>

lemma py_add_str_text:
  assumes "py_add_str a s = Inr x"
  shows "\<exists>t. a = PStr t"
  using assms by (cases a) simp_all

lemma py_strip_method_text:
  assumes "py_strip_method c = Inr x"
  shows "\<exists>t. c = PStr t"
  using assms by (cases c) simp_all

lemma vir_entry_returns:
  assumes "vir_entry d = Inr s"
  shows "vir_document d"
proof (cases d)
  case (PDict kvs)
  with assms show ?thesis
    by (auto simp: vir_document_def vir_entry_def split: sum.splits option.splits
        dest!: py_add_str_text py_strip_method_text)
qed (use assms in \<open>simp_all add: vir_entry_def\<close>)

lemma vir_entry_malformed:
  assumes "\<not> vir_document d"
  shows "\<exists>e. vir_entry d = Inl e"
  using assms vir_entry_returns by (cases "vir_entry d") auto

lemma vir_entry_well_formed:
  assumes "vir_document d"
  shows "vir_entry d = Inr (vir_entry_text d)"
proof -
  from assms obtain f c where "text_field d ''filepath'' = Some f"
    and "text_field d ''content'' = Some c"
    by (auto simp: vir_document_def)
  then show ?thesis
    by (simp add: vir_entry_text vir_entry_text_def)
qed

lemma append_entries_until_malformed:
  "fst (append_entries vir_entry docs acc) = acc @ map vir_entry_text (takeWhile vir_document docs)"
proof (induction docs arbitrary: acc)
  case Nil
  then show ?case by simp
next
  case (Cons d docs)
  show ?case
  proof (cases "vir_document d")
    case True
    with Cons show ?thesis
      by (simp add: vir_entry_well_formed)
  next
    case False
    then obtain e where "vir_entry d = Inl e"
      using vir_entry_malformed by blast
    with False show ?thesis by simp
  qed
qed

lemma vir_handle_response_entries:
  assumes ok: "status_code r < 400"
      and parsed: "response_json r = Inr json"
  shows "fst (vir_handle_response r)
           = map vir_entry_text (takeWhile vir_document (listed_documents json))"
proof (cases "py_getitem json ''value''")
  case (Inl e)
  with ok parsed show ?thesis
    by (simp add: vir_handle_response_def listed_documents_def)
next
  case (Inr v)
  show ?thesis
  proof (cases v)
    case (PList docs)
    with Inr ok parsed show ?thesis
      using append_entries_until_malformed [of docs "[]"]
      by (simp add: vir_handle_response_def listed_documents_def)
  next
    case (PStr t)
    with Inr ok parsed show ?thesis
      by (cases t) (simp_all add: vir_handle_response_def listed_documents_def vir_entry_def)
  next
    case (PDict kvs)
    with Inr ok parsed show ?thesis
      by (cases kvs) (simp_all add: vir_handle_response_def listed_documents_def vir_entry_def)
  qed (use Inr ok parsed in \<open>simp_all add: vir_handle_response_def listed_documents_def\<close>)
qed

text \<open>
  Claim C2, as the code has it. In every invocation of \<open>vector_index_retrieve\<close> in which
  the credential, the embedding call, the token request, the HTTP request or
  \<^verbatim>\<open>response.json()\<close> raises an exception, or in which the search service answers with
  a status of 400 or more, the function returns the empty string. An exception raised
  later, while the parsed response is read, is not propagated either, but the entries
  appended before it are returned: whenever the service answers with a status below 400
  and a body that parses, the function returns the entries of the listed documents that
  come before the first malformed one, joined by a space; that is the empty string when
  the body lists no documents (no \<^verbatim>\<open>value\<close>, or no list there) or the first document
  is malformed. The invocation is described by its trace.
\<close>

theorem vector_index_retrieve_failure_result:
  assumes run: "vector_index_retrieve w input = (tr, res)"
  shows "((\<exists>e. NewDefaultAzureCredential (Inl e) \<in> set tr)
           \<or> (\<exists>q e. GetEmbeddings q (Inl e) \<in> set tr)
           \<or> (\<exists>s e. GetToken s (Inl e) \<in> set tr)
           \<or> (\<exists>url hs b e. RequestsPost url hs b (Inl e) \<in> set tr)
           \<or> (\<exists>url hs b r. RequestsPost url hs b (Inr r) \<in> set tr
                 \<and> ((\<exists>e. response_json r = Inl e) \<or> status_code r \<ge> 400))
          \<longrightarrow> res = Inr [])
       \<and> (\<forall>url hs b r json.
             RequestsPost url hs b (Inr r) \<in> set tr \<and> status_code r < 400
               \<and> response_json r = Inr json
             \<longrightarrow> res = Inr (py_join '' ''
                           (map vir_entry_text (takeWhile vir_document (listed_documents json))))
                 \<and> (listed_documents json = [] \<longrightarrow> res = Inr [])
                 \<and> (\<forall>d rest. listed_documents json = d # rest \<and> \<not> vir_document d
                       \<longrightarrow> res = Inr []))"
proof (intro conjI)
  show "(\<exists>e. NewDefaultAzureCredential (Inl e) \<in> set tr)
           \<or> (\<exists>q e. GetEmbeddings q (Inl e) \<in> set tr)
           \<or> (\<exists>s e. GetToken s (Inl e) \<in> set tr)
           \<or> (\<exists>url hs b e. RequestsPost url hs b (Inl e) \<in> set tr)
           \<or> (\<exists>url hs b r. RequestsPost url hs b (Inr r) \<in> set tr
                 \<and> ((\<exists>e. response_json r = Inl e) \<or> status_code r \<ge> 400))
          \<longrightarrow> res = Inr []"
    using vir_failure_empty [OF run] by (rule impI)
next
  show "\<forall>url hs b r json.
             RequestsPost url hs b (Inr r) \<in> set tr \<and> status_code r < 400
               \<and> response_json r = Inr json
             \<longrightarrow> res = Inr (py_join '' ''
                           (map vir_entry_text (takeWhile vir_document (listed_documents json))))
                 \<and> (listed_documents json = [] \<longrightarrow> res = Inr [])
                 \<and> (\<forall>d rest. listed_documents json = d # rest \<and> \<not> vir_document d
                       \<longrightarrow> res = Inr [])"
  proof (intro allI impI)
    fix url hs b r json
    assume responded: "RequestsPost url hs b (Inr r) \<in> set tr \<and> status_code r < 400
               \<and> response_json r = Inr json"
    then have posted: "RequestsPost url hs b (Inr r) \<in> set tr"
      and ok: "status_code r < 400" and parsed: "response_json r = Inr json"
      by simp_all
    have result: "res = Inr (py_join '' ''
                    (map vir_entry_text (takeWhile vir_document (listed_documents json))))"
      using vir_responded [OF run posted] vir_handle_response_entries [OF ok parsed]
      by simp
    then show "res = Inr (py_join '' ''
                           (map vir_entry_text (takeWhile vir_document (listed_documents json))))
                 \<and> (listed_documents json = [] \<longrightarrow> res = Inr [])
                 \<and> (\<forall>d rest. listed_documents json = d # rest \<and> \<not> vir_document d
                       \<longrightarrow> res = Inr [])"
      by auto
  qed
qed

lemma incomplete_world_run:
  "vector_index_retrieve incomplete_world ''q'' =
     ([NewAzureOpenAIClient (Inr ()), NewDefaultAzureCredential (Inr ()),
       GetEmbeddings ''q'' (Inr (PList [PFloat 1 (- 1), PFloat (- 3) (- 4)])),
       GetToken ''https://search.azure.com/.default'' (Inr ''tok''),
       RequestsPost
         ''https://None.search.windows.net/indexes/ragindex/docs/search?api-version=2024-07-01''
         [(''Content-Type'', ''application/json''), (''Authorization'', ''Bearer tok'')]
         [(''select'', PStr ''title, content, url, filepath, chunk_id''),
          (''top'', PInt 3), (''search'', PStr ''q''),
          (''vectorQueries'',
           PList [PDict [(''kind'', PStr ''vector''),
                         (''vector'', PList [PFloat 1 (- 1), PFloat (- 3) (- 4)]),
                         (''fields'', PStr ''contentVector''), (''k'', PInt 3)]])]
         (Inr incomplete_response)],
      Inr (''orders.sql: select 1'' @ newline))"
  by (simp add: vir_eval incomplete_world_def example_world_def incomplete_response_def)

theorem vector_index_retrieve_failure_result_witness:
  "(RequestsPost
      ''https://None.search.windows.net/indexes/ragindex/docs/search?api-version=2024-07-01''
      [(''Content-Type'', ''application/json''), (''Authorization'', ''Bearer tok'')]
      [(''select'', PStr ''title, content, url, filepath, chunk_id''),
       (''top'', PInt 3), (''search'', PStr ''q''),
       (''vectorQueries'',
        PList [PDict [(''kind'', PStr ''vector''),
                      (''vector'', PList [PFloat 1 (- 1), PFloat (- 3) (- 4)]),
                      (''fields'', PStr ''contentVector''), (''k'', PInt 3)]])]
      (Inr busy_response)
       \<in> set (fst (vector_index_retrieve busy_world ''q''))
     \<and> status_code busy_response \<ge> 400
     \<and> snd (vector_index_retrieve busy_world ''q'') = Inr [])
   \<and> (RequestsPost
      ''https://None.search.windows.net/indexes/ragindex/docs/search?api-version=2024-07-01''
      [(''Content-Type'', ''application/json''), (''Authorization'', ''Bearer tok'')]
      [(''select'', PStr ''title, content, url, filepath, chunk_id''),
       (''top'', PInt 3), (''search'', PStr ''q''),
       (''vectorQueries'',
        PList [PDict [(''kind'', PStr ''vector''),
                      (''vector'', PList [PFloat 1 (- 1), PFloat (- 3) (- 4)]),
                      (''fields'', PStr ''contentVector''), (''k'', PInt 3)]])]
      (Inr incomplete_response)
       \<in> set (fst (vector_index_retrieve incomplete_world ''q''))
     \<and> status_code incomplete_response < 400
     \<and> response_json incomplete_response
         = Inr (PDict [(''value'',
               PList [PDict [(''filepath'', PStr ''orders.sql''), (''content'', PStr ''select 1'')],
                      PDict [(''filepath'', PStr ''b.sql'')]])])
     \<and> map vir_document (listed_documents (PDict [(''value'',
               PList [PDict [(''filepath'', PStr ''orders.sql''), (''content'', PStr ''select 1'')],
                      PDict [(''filepath'', PStr ''b.sql'')]])])) = [True, False]
     \<and> snd (vector_index_retrieve incomplete_world ''q'') = Inr (''orders.sql: select 1'' @ newline))"
proof -
  let ?busy = "vector_index_retrieve busy_world ''q''"
  let ?incomplete = "vector_index_retrieve incomplete_world ''q''"
  let ?json = "PDict [(''value'',
               PList [PDict [(''filepath'', PStr ''orders.sql''), (''content'', PStr ''select 1'')],
                      PDict [(''filepath'', PStr ''b.sql'')]])]"
  have busy_run: "?busy = (fst ?busy, snd ?busy)" by simp
  have busy_posted: "RequestsPost
      ''https://None.search.windows.net/indexes/ragindex/docs/search?api-version=2024-07-01''
      [(''Content-Type'', ''application/json''), (''Authorization'', ''Bearer tok'')]
      [(''select'', PStr ''title, content, url, filepath, chunk_id''),
       (''top'', PInt 3), (''search'', PStr ''q''),
       (''vectorQueries'',
        PList [PDict [(''kind'', PStr ''vector''),
                      (''vector'', PList [PFloat 1 (- 1), PFloat (- 3) (- 4)]),
                      (''fields'', PStr ''contentVector''), (''k'', PInt 3)]])]
      (Inr busy_response) \<in> set (fst ?busy)"
    by (simp add: busy_world_run)
  have busy_status: "status_code busy_response \<ge> 400"
    by (simp add: busy_response_def)
  have busy_result: "snd ?busy = Inr []"
    using vector_index_retrieve_failure_result [OF busy_run] busy_posted busy_status
    by blast
  have run: "?incomplete = (fst ?incomplete, snd ?incomplete)" by simp
  have posted: "RequestsPost
      ''https://None.search.windows.net/indexes/ragindex/docs/search?api-version=2024-07-01''
      [(''Content-Type'', ''application/json''), (''Authorization'', ''Bearer tok'')]
      [(''select'', PStr ''title, content, url, filepath, chunk_id''),
       (''top'', PInt 3), (''search'', PStr ''q''),
       (''vectorQueries'',
        PList [PDict [(''kind'', PStr ''vector''),
                      (''vector'', PList [PFloat 1 (- 1), PFloat (- 3) (- 4)]),
                      (''fields'', PStr ''contentVector''), (''k'', PInt 3)]])]
      (Inr incomplete_response) \<in> set (fst ?incomplete)"
    by (simp add: incomplete_world_run)
  have ok: "status_code incomplete_response < 400"
    by (simp add: incomplete_response_def)
  have parsed: "response_json incomplete_response = Inr ?json"
    by (simp add: incomplete_response_def)
  have documents: "map vir_document (listed_documents ?json) = [True, False]"
    by (simp add: listed_documents_def vir_document_def)
  have "snd ?incomplete = Inr (py_join '' ''
          (map vir_entry_text (takeWhile vir_document (listed_documents ?json))))"
    using vector_index_retrieve_failure_result [OF run] posted ok parsed
    by blast
  then have result: "snd ?incomplete = Inr (''orders.sql: select 1'' @ newline)"
    by (simp add: listed_documents_def vir_document_def vir_entry_text_def
        py_strip_def is_space_def newline_def)
  from busy_posted busy_status busy_result posted ok parsed documents result
  show ?thesis by blast
qed

text \<open>The claim as stated fails when the exception comes after an entry has been
  appended: the second document of this response has no content, reading it raises
  KeyError inside the \<^verbatim>\<open>try\<close> block, and the function returns the entry of the first
  document, not the empty string.\<close>

theorem vector_index_retrieve_keeps_earlier_entries:
  "vir_entry (PDict [(''filepath'', PStr ''b.sql'')]) = Inl (KeyError ''content'')
   \<and> snd (vector_index_retrieve incomplete_world ''q'') = Inr (''orders.sql: select 1'' @ newline)"
  by (simp add: vir_eval incomplete_world_def example_world_def incomplete_response_def)

subsection \<open>The request body\<close>

lemma build_body_semantic:
  assumes "build_body k a u c q emb = Inr b"
  shows "if u = PStr ''true'' \<and> a \<noteq> ''vector''
         then map_of b ''queryType'' = Some (PStr ''semantic'')
              \<and> map_of b ''semanticConfiguration'' = Some (PStr c)
         else map_of b ''queryType'' = None \<and> map_of b ''semanticConfiguration'' = None"
  using assms
  by (auto simp: build_body_def vector_queries_def Let_def update_conv'
      split: if_splits sum.splits)

lemma use_semantic_true:
  "os_getenv w ''AZURE_SEARCH_USE_SEMANTIC'' (PBool False) = PStr ''true''
     \<longleftrightarrow> getenv w ''AZURE_SEARCH_USE_SEMANTIC'' = Some ''true''"
  by (simp add: os_getenv_def split: option.splits)

text \<open>
  Claim C9. \<open>vector_index_retrieve\<close> adds the semantic query type and the semantic
  configuration to the body of the search request if and only if the environment
  variable \<^verbatim>\<open>AZURE_SEARCH_USE_SEMANTIC\<close> is exactly the string \<^verbatim>\<open>true\<close> and the search
  approach is not \<^verbatim>\<open>vector\<close>; an unset variable gives the boolean False, which is not that
  string, so semantic search is off unless the variable is set to it. The body is the
  one of the POST recorded in the trace.
\<close>

theorem vector_index_retrieve_semantic_body:
  assumes run: "vector_index_retrieve w input = (tr, res)"
      and posted: "RequestsPost url hs b out \<in> set tr"
  shows "if getenv w ''AZURE_SEARCH_USE_SEMANTIC'' = Some ''true''
            \<and> os_getenv_str w ''AZURE_SEARCH_APPROACH'' ''hybrid'' \<noteq> ''vector''
         then map_of b ''queryType'' = Some (PStr ''semantic'')
              \<and> map_of b ''semanticConfiguration''
                  = Some (PStr (os_getenv_str w ''AZURE_SEARCH_SEMANTIC_SEARCH_CONFIG''
                                  ''my-semantic-config''))
         else map_of b ''queryType'' = None \<and> map_of b ''semanticConfiguration'' = None"
proof -
  from vir_posted_body [OF run posted] obtain emb where "request_body w input emb = Inr b"
    by blast
  from build_body_semantic [OF this [unfolded request_body_def]] show ?thesis
    by (simp only: use_semantic_true)
qed

lemma semantic_world_run:
  "vector_index_retrieve semantic_world ''q'' =
     ([NewAzureOpenAIClient (Inr ()), NewDefaultAzureCredential (Inr ()),
       GetEmbeddings ''q'' (Inr (PList [PFloat 1 (- 1), PFloat (- 3) (- 4)])),
       GetToken ''https://search.azure.com/.default'' (Inr ''tok''),
       RequestsPost
         ''https://None.search.windows.net/indexes/ragindex/docs/search?api-version=2024-07-01''
         [(''Content-Type'', ''application/json''), (''Authorization'', ''Bearer tok'')]
         [(''select'', PStr ''title, content, url, filepath, chunk_id''),
          (''top'', PInt 3), (''search'', PStr ''q''),
          (''vectorQueries'',
           PList [PDict [(''kind'', PStr ''vector''),
                         (''vector'', PList [PFloat 1 (- 1), PFloat (- 3) (- 4)]),
                         (''fields'', PStr ''contentVector''), (''k'', PInt 3)]]),
          (''queryType'', PStr ''semantic''),
          (''semanticConfiguration'', PStr ''my-semantic-config'')]
         (Inr example_response)],
      Inr (''orders.sql: select 1'' @ newline @ '' b.sql: from t'' @ newline))"
  by (simp add: vir_eval semantic_world_def example_world_def example_response_def
      example_docs_def)

theorem vector_index_retrieve_semantic_body_witness:
  "RequestsPost
      ''https://None.search.windows.net/indexes/ragindex/docs/search?api-version=2024-07-01''
      [(''Content-Type'', ''application/json''), (''Authorization'', ''Bearer tok'')]
      [(''select'', PStr ''title, content, url, filepath, chunk_id''),
       (''top'', PInt 3), (''search'', PStr ''q''),
       (''vectorQueries'',
        PList [PDict [(''kind'', PStr ''vector''),
                      (''vector'', PList [PFloat 1 (- 1), PFloat (- 3) (- 4)]),
                      (''fields'', PStr ''contentVector''), (''k'', PInt 3)]]),
       (''queryType'', PStr ''semantic''),
       (''semanticConfiguration'', PStr ''my-semantic-config'')]
      (Inr example_response)
     \<in> set (fst (vector_index_retrieve semantic_world ''q''))
   \<and> getenv semantic_world ''AZURE_SEARCH_USE_SEMANTIC'' = Some ''true''
   \<and> os_getenv_str semantic_world ''AZURE_SEARCH_APPROACH'' ''hybrid'' = ''hybrid''
   \<and> map_of [(''select'', PStr ''title, content, url, filepath, chunk_id''),
       (''top'', PInt 3), (''search'', PStr ''q''),
       (''vectorQueries'',
        PList [PDict [(''kind'', PStr ''vector''),
                      (''vector'', PList [PFloat 1 (- 1), PFloat (- 3) (- 4)]),
                      (''fields'', PStr ''contentVector''), (''k'', PInt 3)]]),
       (''queryType'', PStr ''semantic''),
       (''semanticConfiguration'', PStr ''my-semantic-config'')] ''queryType''
       = Some (PStr ''semantic'')"
proof -
  let ?run = "vector_index_retrieve semantic_world ''q''"
  have run: "?run = (fst ?run, snd ?run)" by simp
  have posted: "RequestsPost
      ''https://None.search.windows.net/indexes/ragindex/docs/search?api-version=2024-07-01''
      [(''Content-Type'', ''application/json''), (''Authorization'', ''Bearer tok'')]
      [(''select'', PStr ''title, content, url, filepath, chunk_id''),
       (''top'', PInt 3), (''search'', PStr ''q''),
       (''vectorQueries'',
        PList [PDict [(''kind'', PStr ''vector''),
                      (''vector'', PList [PFloat 1 (- 1), PFloat (- 3) (- 4)]),
                      (''fields'', PStr ''contentVector''), (''k'', PInt 3)]]),
       (''queryType'', PStr ''semantic''),
       (''semanticConfiguration'', PStr ''my-semantic-config'')]
      (Inr example_response) \<in> set (fst ?run)"
    by (simp add: semantic_world_run)
  have env: "getenv semantic_world ''AZURE_SEARCH_USE_SEMANTIC'' = Some ''true''"
            "os_getenv_str semantic_world ''AZURE_SEARCH_APPROACH'' ''hybrid'' = ''hybrid''"
    by (simp_all add: semantic_world_def example_world_def os_getenv_str_def)
  from vector_index_retrieve_semantic_body [OF run posted] env posted
  show ?thesis by simp
qed

subsection \<open>External calls\<close>

lemma vir_service_calls:
  "(\<exists>n. map call_name (filter is_service_call (fst (vector_index_retrieve w input)))
          = take n [''get_embeddings'', ''get_token'', ''requests.post''])
   \<and> length (filter is_search_request (fst (vector_index_retrieve w input))) \<le> 1"
proof -
  let ?names = "[''get_embeddings'', ''get_token'', ''requests.post'']"
  obtain tr res where run: "vector_index_retrieve w input = (tr, res)"
    by (cases "vector_index_retrieve w input")
  have "(\<exists>n. map call_name (filter is_service_call tr) = take n ?names)
      \<and> length (filter is_search_request tr) \<le> 1"
    using vir_cases [OF run]
  proof (elim disjE exE conjE)
    fix e
    assume "tr = [NewAzureOpenAIClient (Inl e)]"
    then have "map call_name (filter is_service_call tr) = take 0 ?names
        \<and> length (filter is_search_request tr) \<le> 1"
      by simp
    then show ?thesis by blast
  next
    fix e
    assume "tr = [NewAzureOpenAIClient (Inr ()), NewDefaultAzureCredential (Inl e)]"
    then have "map call_name (filter is_service_call tr) = take 0 ?names
        \<and> length (filter is_search_request tr) \<le> 1"
      by simp
    then show ?thesis by blast
  next
    fix e
    assume "tr = [NewAzureOpenAIClient (Inr ()), NewDefaultAzureCredential (Inr ()),
                   GetEmbeddings input (Inl e)]"
    then have "map call_name (filter is_service_call tr) = take 1 ?names
        \<and> length (filter is_search_request tr) \<le> 1"
      by simp
    then show ?thesis by blast
  next
    fix emb e
    assume "tr = [NewAzureOpenAIClient (Inr ()), NewDefaultAzureCredential (Inr ()),
                   GetEmbeddings input (Inr emb),
                   GetToken ''https://search.azure.com/.default'' (Inl e)]"
    then have "map call_name (filter is_service_call tr) = take 2 ?names
        \<and> length (filter is_search_request tr) \<le> 1"
      by simp
    then show ?thesis by blast
  next
    fix emb tok
    assume "tr = [NewAzureOpenAIClient (Inr ()), NewDefaultAzureCredential (Inr ()),
                   GetEmbeddings input (Inr emb),
                   GetToken ''https://search.azure.com/.default'' (Inr tok)]"
    then have "map call_name (filter is_service_call tr) = take 2 ?names
        \<and> length (filter is_search_request tr) \<le> 1"
      by simp
    then show ?thesis by blast
  next
    fix emb tok url hs b e
    assume "tr = [NewAzureOpenAIClient (Inr ()), NewDefaultAzureCredential (Inr ()),
                   GetEmbeddings input (Inr emb),
                   GetToken ''https://search.azure.com/.default'' (Inr tok),
                   RequestsPost url hs b (Inl e)]"
    then have "map call_name (filter is_service_call tr) = take 3 ?names
        \<and> length (filter is_search_request tr) \<le> 1"
      by simp
    then show ?thesis by blast
  next
    fix emb tok url hs b r
    assume "tr = [NewAzureOpenAIClient (Inr ()), NewDefaultAzureCredential (Inr ()),
                   GetEmbeddings input (Inr emb),
                   GetToken ''https://search.azure.com/.default'' (Inr tok),
                   RequestsPost url hs b (Inr r)]"
    then have "map call_name (filter is_service_call tr) = take 3 ?names
        \<and> length (filter is_search_request tr) \<le> 1"
      by simp
    then show ?thesis by blast
  qed
  with run show ?thesis by simp
qed

text \<open>
  Claim C5, as the code has it. One invocation of \<open>vector_index_retrieve\<close> makes at most
  three calls to remote services, each at most once and in this order: the embedding
  request, the token request, the POST to the search service; so it sends at most one
  request to the search service, and nothing is retried. One invocation of
  \<open>cogmo_search\<close> makes exactly one call to a remote service, its GET.
\<close>

theorem tool_service_calls:
  "(\<exists>n. map call_name (filter is_service_call (fst (vector_index_retrieve w input)))
          = take n [''get_embeddings'', ''get_token'', ''requests.post''])
   \<and> distinct (map call_name (filter is_service_call (fst (vector_index_retrieve w input))))
   \<and> length (filter is_service_call (fst (vector_index_retrieve w input))) \<le> 3
   \<and> length (filter is_search_request (fst (vector_index_retrieve w input))) \<le> 1
   \<and> map call_name (filter is_service_call (fst (cogmo_search w' input'))) = [''requests.get'']
   \<and> length (filter is_service_call (fst (cogmo_search w' input'))) = 1
   \<and> length (filter is_search_request (fst (cogmo_search w' input'))) = 1"
proof -
  let ?tr = "fst (vector_index_retrieve w input)"
  let ?names = "[''get_embeddings'', ''get_token'', ''requests.post'']"
  from vir_service_calls obtain n where
    names: "map call_name (filter is_service_call ?tr) = take n ?names"
    and search: "length (filter is_search_request ?tr) \<le> 1"
    by blast
  have "distinct ?names" by simp
  then have "distinct (take n ?names)" by (rule distinct_take)
  then have once: "distinct (map call_name (filter is_service_call ?tr))"
    by (simp only: names)
  have "length (filter is_service_call ?tr)
          = length (map call_name (filter is_service_call ?tr))"
    by simp
  also have "\<dots> = length (take n ?names)"
    by (simp only: names)
  also have "\<dots> \<le> 3"
    by simp
  finally have total: "length (filter is_service_call ?tr) \<le> 3" .
  have cogmo: "map call_name (filter is_service_call (fst (cogmo_search w' input'))) = [''requests.get'']
      \<and> length (filter is_service_call (fst (cogmo_search w' input'))) = 1
      \<and> length (filter is_search_request (fst (cogmo_search w' input'))) = 1"
    by (simp add: cogmo_search_def Let_def split: prod.splits)
  from names once total search cogmo show ?thesis by blast
qed

text \<open>The claim as stated, that an invocation of \<open>vector_index_retrieve\<close> never performs
  more than one external service call, fails whenever the search is reached: three
  services are called.\<close>

theorem vector_index_retrieve_three_service_calls:
  "length (filter is_service_call (fst (vector_index_retrieve example_world ''q''))) = 3"
  by (simp add: example_world_run)

subsection \<open>cogmo_search\<close>

text \<open>\<^verbatim>\<open>int\<close> does not strip the separator U+001C, but it strips the no-break space.\<close>

lemma int_of_str_separator:
  "int_of_str (''2'' @ [CHR 0x1C]) = Inl ValueError \<and> int_of_str (CHR 0xA0 # ''+1_0 '') = Inr 10"
  by (simp add: int_of_str_def int_strip_def is_int_space_def int_max_str_digits_def
      unsigned_of_str_def is_digit_def digit_value_def)

lemma cogmo_responded:
  assumes run: "cogmo_search w input = (tr, res)"
      and got: "RequestsGet url ps (Inr r) \<in> set tr"
  shows "res = py_join '' ''
           (fst (cogmo_handle_response (os_getenv w ''AZURE_SEARCH_TOP_K'' (PInt 3)) r))"
  using assms
  by (auto simp: cogmo_search_def Let_def split: prod.splits sum.splits)

lemma cogmo_handle_response_documents:
  assumes ok: "status_code r < 400"
      and parsed: "response_json r = Inr json"
      and inner: "py_getitem json ''response'' = Inr body"
      and listed: "py_getitem body ''docs'' = Inr (PList docs)"
      and bound: "py_int top_k = Inr k"
      and nonneg: "0 \<le> k"
      and wf: "\<forall>d \<in> set (take (nat k) docs).
                 text_field d ''title'' \<noteq> None \<and> text_field d ''highlighting'' \<noteq> None"
  shows "fst (cogmo_handle_response top_k r) =
           map (\<lambda>d. the (text_field d ''title'') @ '': ''
                       @ py_strip (the (text_field d ''highlighting'')) @ newline)
               (take (nat k) docs)"
proof -
  let ?g = "\<lambda>d. the (text_field d ''title'') @ '': ''
                       @ py_strip (the (text_field d ''highlighting'')) @ newline"
  have "\<forall>d \<in> set (take (nat k) docs). cogmo_entry d = Inr (?g d)"
  proof
    fix d
    assume "d \<in> set (take (nat k) docs)"
    with wf obtain t h where "text_field d ''title'' = Some t"
      and "text_field d ''highlighting'' = Some h"
      by auto
    then show "cogmo_entry d = Inr (?g d)"
      by (simp add: cogmo_entry_text)
  qed
  then have "append_entries cogmo_entry (take (nat k) docs) []
               = ([] @ map ?g (take (nat k) docs), None)"
    by (rule append_entries_all)
  with ok parsed inner listed bound nonneg show ?thesis
    by (simp add: cogmo_handle_response_def slice_to_def)
qed

lemma search_top_k_default:
  assumes "getenv w ''AZURE_SEARCH_TOP_K'' = None"
  shows "py_int (os_getenv w ''AZURE_SEARCH_TOP_K'' (PInt 3)) = Inr 3"
  using assms by (simp add: os_getenv_def)

text \<open>
  Claim C8, as the code has it. For every successful response to \<open>cogmo_search\<close>, when
  \<^verbatim>\<open>int(AZURE_SEARCH_TOP_K)\<close> (3 when the variable is unset) is not negative, the
  returned string holds the entries of the first that many documents, in the order
  received, and of no other document, even when the service returns more. A document is
  a JSON object whose title and highlighting are strings.
\<close>

theorem cogmo_search_first_documents:
  assumes run: "cogmo_search w input = (tr, res)"
      and got: "RequestsGet url ps (Inr r) \<in> set tr"
      and ok: "status_code r < 400"
      and parsed: "response_json r = Inr json"
      and inner: "py_getitem json ''response'' = Inr body"
      and listed: "py_getitem body ''docs'' = Inr (PList docs)"
      and bound: "py_int (os_getenv w ''AZURE_SEARCH_TOP_K'' (PInt 3)) = Inr k"
      and nonneg: "0 \<le> k"
      and wf: "\<forall>d \<in> set (take (nat k) docs).
                 text_field d ''title'' \<noteq> None \<and> text_field d ''highlighting'' \<noteq> None"
  shows "res = py_join '' ''
           (map (\<lambda>d. the (text_field d ''title'') @ '': ''
                        @ py_strip (the (text_field d ''highlighting'')) @ newline)
                (take (nat k) docs))
       \<and> int (length (take (nat k) docs)) \<le> k"
proof -
  have "int (length (take (nat k) docs)) \<le> k"
    using nonneg by simp
  with cogmo_responded [OF run got]
    cogmo_handle_response_documents [OF ok parsed inner listed bound nonneg wf]
  show ?thesis by simp
qed

lemma cogmo_world_two_run:
  "cogmo_search (cogmo_world (Some ''2'')) ''q'' =
     ([RequestsGet ''https://search.cogmo.jp/api/v3//collection'' [(''query'', ''q'')]
         (Inr cogmo_response)],
      ''a: x'' @ newline @ '' b: y'' @ newline)"
  by (simp add: cogmo_eval cogmo_world_def cogmo_response_def cogmo_docs_def)

theorem cogmo_search_first_documents_witness:
  "RequestsGet ''https://search.cogmo.jp/api/v3//collection'' [(''query'', ''q'')]
       (Inr cogmo_response)
     \<in> set (fst (cogmo_search (cogmo_world (Some ''2'')) ''q''))
   \<and> status_code cogmo_response < 400
   \<and> response_json cogmo_response = Inr (PDict [(''response'', PDict [(''docs'', PList cogmo_docs)])])
   \<and> py_int (os_getenv (cogmo_world (Some ''2'')) ''AZURE_SEARCH_TOP_K'' (PInt 3)) = Inr 2
   \<and> length cogmo_docs = 3
   \<and> list_all (\<lambda>d. text_field d ''title'' \<noteq> None \<and> text_field d ''highlighting'' \<noteq> None)
        (take 2 cogmo_docs)
   \<and> snd (cogmo_search (cogmo_world (Some ''2'')) ''q'') = ''a: x'' @ newline @ '' b: y'' @ newline"
proof -
  let ?w = "cogmo_world (Some ''2'')"
  let ?run = "cogmo_search ?w ''q''"
  have run: "?run = (fst ?run, snd ?run)" by simp
  have got: "RequestsGet ''https://search.cogmo.jp/api/v3//collection'' [(''query'', ''q'')]
       (Inr cogmo_response) \<in> set (fst ?run)"
    by (simp add: cogmo_world_two_run)
  have ok: "status_code cogmo_response < 400"
    by (simp add: cogmo_response_def)
  have parsed: "response_json cogmo_response
      = Inr (PDict [(''response'', PDict [(''docs'', PList cogmo_docs)])])"
    by (simp add: cogmo_response_def)
  have inner: "py_getitem (PDict [(''response'', PDict [(''docs'', PList cogmo_docs)])]) ''response''
      = Inr (PDict [(''docs'', PList cogmo_docs)])"
    by simp
  have listed: "py_getitem (PDict [(''docs'', PList cogmo_docs)]) ''docs'' = Inr (PList cogmo_docs)"
    by simp
  have bound: "py_int (os_getenv ?w ''AZURE_SEARCH_TOP_K'' (PInt 3)) = Inr 2"
    by (simp add: cogmo_eval cogmo_world_def)
  have nonneg: "(0::int) \<le> 2" by simp
  have wf: "\<forall>d \<in> set (take (nat 2) cogmo_docs).
              text_field d ''title'' \<noteq> None \<and> text_field d ''highlighting'' \<noteq> None"
    by (simp add: cogmo_docs_def)
  have "snd ?run = py_join '' ''
           (map (\<lambda>d. the (text_field d ''title'') @ '': ''
                        @ py_strip (the (text_field d ''highlighting'')) @ newline)
                (take (nat 2) cogmo_docs))
       \<and> int (length (take (nat 2) cogmo_docs)) \<le> 2"
    by (rule cogmo_search_first_documents [OF run got ok parsed inner listed bound nonneg wf])
  then have "snd ?run = ''a: x'' @ newline @ '' b: y'' @ newline"
    by (simp add: cogmo_docs_def py_strip_def is_space_def newline_def)
  moreover have "length cogmo_docs = 3"
    by (simp add: cogmo_docs_def)
  moreover have "list_all (\<lambda>d. text_field d ''title'' \<noteq> None \<and> text_field d ''highlighting'' \<noteq> None)
        (take 2 cogmo_docs)"
    by (simp add: cogmo_docs_def)
  ultimately show ?thesis
    using got ok parsed bound by simp
qed

text \<open>The claim as stated, without the restriction to a bound that is not negative,
  fails: with \<^verbatim>\<open>AZURE_SEARCH_TOP_K=-1\<close> the slice drops the last of the three documents
  and the entries of two documents are returned, which is more than \<open>-1\<close>.\<close>

theorem cogmo_search_negative_top_k:
  "py_int (os_getenv (cogmo_world (Some ''-1'')) ''AZURE_SEARCH_TOP_K'' (PInt 3)) = Inr (- 1)
   \<and> snd (cogmo_search (cogmo_world (Some ''-1'')) ''q'') = ''a: x'' @ newline @ '' b: y'' @ newline"
  by (simp add: cogmo_eval cogmo_world_def cogmo_response_def cogmo_docs_def)

end
